theory Spec2Isabelle
  imports Complex_Main
begin

section \<open>Data model of the order controller\<close>

text \<open>
  The development embeds the order controller (placeOrder, placeWalletOrder,
  verifyRazorpayPayment, returnOrderStatusUpdate, orderStatusUpdate, processRefund).
  Conventions of the embedding:
  \<^item> a MongoDB ObjectId is a natural number; \<open>new ObjectId()\<close> and the \<open>_id\<close> of a new
    order take the counter \<open>next_oid\<close> of the state and advance it;
  \<^item> a JavaScript number that is an amount of money is a rational (\<open>rat\<close>): the arithmetic
    of the controller (\<open>*\<close>, \<open>/ 100\<close>, \<open>-\<close>, \<open>+\<close>, \<open>Math.min\<close>, \<open><\<close>) is exact there; a
    quantity is an integer;
  \<^item> \<open>new Date()\<close> reads the clock \<open>now\<close> of the state;
  \<^item> a collection is the list of its documents, \<open>findOne\<close> returns the first document that
    matches, \<open>findOneAndUpdate\<close> and \<open>save\<close> rewrite the first document that matches;
  \<^item> a request field that may be absent is an option; JavaScript's falsy test \<open>!x\<close> holds
    of an absent field, of the empty string and of the number zero;
  \<^item> the awaited \<open>findOneAndUpdate\<close> calls of a \<open>Promise.all\<close> are applied in the
    order of the list: each is one atomic \<open>$inc\<close> on one document, and these commute;
    the read-modify-save callbacks of the return branch do not commute and are modelled
    with all their reads before their saves (see \<open>restock_returned\<close>);
  \<^item> a response is its HTTP status code and its message; failures of the storage layer
    (the \<open>catch\<close> blocks answering 500) are outside the model, a \<open>TypeError\<close> raised by
    the controller's own code is inside.
\<close>

type_synonym oid = nat

record variant =
  v_id :: oid
  availableQuantity :: int

record product =
  p_id :: oid
  variants :: "variant list"

record item_variant =
  iv_price :: rat

text \<open>A line item as the request body carries it; \<open>variant\<close> may be absent.\<close>

record line_item =
  productId :: oid
  variantId :: oid
  name :: string
  quantity :: int
  variant :: "item_variant option"

text \<open>A line item as the order stores it (the result of \<open>products.map\<close>).\<close>

record order_item =
  oi_productId :: oid
  oi_variantId :: oid
  oi_name :: string
  oi_quantity :: int
  oi_price :: rat
  oi_variant :: item_variant

record coupon =
  c_id :: oid
  c_name :: string
  isListed :: string
  expireOn :: nat
  CouponType :: string
  offerPrice :: rat

record applied_coupon =
  couponId :: oid
  code :: string
  discountType :: string
  ac_discountAmount :: rat

record razorpay_ref =
  rz_orderId :: string
  rz_paymentId :: "string option"
  rz_signature :: "string option"

record return_details =
  reason :: string
  rd_description :: string
  returnDate :: nat

record order =
  o_id :: oid
  o_userId :: oid
  o_products :: "order_item list"
  shippingAddress :: string
  paymentMethod :: string
  totalAmount :: rat
  o_coupon :: "applied_coupon option"
  discountAmount :: rat
  finalAmount :: rat
  orderDate :: nat
  orderStatus :: string
  paymentStatus :: string
  razorpay :: "razorpay_ref option"
  returnDetails :: "return_details option"

text \<open>
  The description of a wallet transaction is either the fixed text
  "Order payment using wallet" or the template "Refund for order <id>".
\<close>

datatype description = Order_payment_using_wallet | Refund_for_order oid

record transaction =
  transaction_id :: oid
  t_type :: string
  amount :: rat
  t_description :: description
  t_status :: string
  t_date :: "nat option"

record wallet =
  w_userId :: oid
  balance :: rat
  transactions :: "transaction list"

record cart =
  cart_userId :: oid
  cart_items :: "oid list"

record state =
  products :: "product list"
  orders :: "order list"
  wallets :: "wallet list"
  carts :: "cart list"
  coupons :: "coupon list"
  next_oid :: oid
  now :: nat

datatype response = Response (status_code: nat) (message: string)

section \<open>Storage primitives\<close>

text \<open>\<open>findOneAndUpdate\<close> / \<open>save\<close>: rewrite the first document that matches.\<close>

fun update_first :: "('a \<Rightarrow> bool) \<Rightarrow> ('a \<Rightarrow> 'a) \<Rightarrow> 'a list \<Rightarrow> 'a list" where
  "update_first P f [] = []"
| "update_first P f (x # xs) = (if P x then f x # xs else x # update_first P f xs)"

text \<open>\<open>Array.prototype.findIndex\<close>, with \<open>None\<close> for \<open>-1\<close>.\<close>

fun findIndex :: "('a \<Rightarrow> bool) \<Rightarrow> 'a list \<Rightarrow> nat option" where
  "findIndex P [] = None"
| "findIndex P (x # xs) =
     (if P x then Some 0 else map_option Suc (findIndex P xs))"

definition falsy :: "string option \<Rightarrow> bool" where
  "falsy x = (case x of None \<Rightarrow> True | Some t \<Rightarrow> t = [])"

text \<open>
  The filter \<open>{_id: p, 'variants._id': v}\<close>: the document has the id and some element of
  its \<open>variants\<close> array has the variant id.
\<close>

definition has_variant :: "oid \<Rightarrow> oid \<Rightarrow> product \<Rightarrow> bool" where
  "has_variant p v d = (p_id d = p \<and> list_ex (\<lambda>x. v_id x = v) (variants d))"

text \<open>
  \<open>Product.findOneAndUpdate({_id: p, 'variants._id': v},
  {$inc: {'variants.$.availableQuantity': q}})\<close>: in the first document that matches, the
  positional operator \<open>$\<close> is the first array element with the variant id.
\<close>

definition inc_stock :: "oid \<Rightarrow> oid \<Rightarrow> int \<Rightarrow> product list \<Rightarrow> product list" where
  "inc_stock p v q ps =
     update_first (has_variant p v)
       (\<lambda>d. d\<lparr>variants :=
          update_first (\<lambda>x. v_id x = v)
            (\<lambda>x. x\<lparr>availableQuantity := availableQuantity x + q\<rparr>) (variants d)\<rparr>) ps"

text \<open>
  The availability query
  \<open>Product.findOne({_id: p, 'variants._id': v, 'variants.availableQuantity': {$gte: q}})\<close>.
  The two conditions on the array \<open>variants\<close> are written with dot notation and without
  \<open>$elemMatch\<close>, so MongoDB takes each of them over the whole array: some element has the
  id, and some element (the same one or another) has the quantity.
\<close>

definition stock_query :: "product list \<Rightarrow> line_item \<Rightarrow> bool" where
  "stock_query ps item =
     list_ex (\<lambda>d. p_id d = productId item
                 \<and> list_ex (\<lambda>x. v_id x = variantId item) (variants d)
                 \<and> list_ex (\<lambda>x. quantity item \<le> availableQuantity x) (variants d)) ps"

text \<open>The verification loop returns at the first item whose query finds nothing.\<close>

definition first_unavailable :: "product list \<Rightarrow> line_item list \<Rightarrow> line_item option" where
  "first_unavailable ps items = find (\<lambda>item. \<not> stock_query ps item) items"

definition decrement_stock :: "line_item list \<Rightarrow> product list \<Rightarrow> product list" where
  "decrement_stock items ps =
     fold (\<lambda>item. inc_stock (productId item) (variantId item) (- quantity item)) items ps"

definition clear_cart :: "oid \<Rightarrow> cart list \<Rightarrow> cart list" where
  "clear_cart u cs = update_first (\<lambda>c. cart_userId c = u) (\<lambda>c. c\<lparr>cart_items := []\<rparr>) cs"

text \<open>
  \<open>products.map(item => ({..., price: item.variant.price, variant: item.variant}))\<close>:
  reading \<open>price\<close> of an absent \<open>variant\<close> raises a TypeError, here \<open>None\<close>.
\<close>

definition to_order_item :: "line_item \<Rightarrow> order_item option" where
  "to_order_item item =
     (case variant item of
        None \<Rightarrow> None
      | Some iv \<Rightarrow> Some \<lparr>oi_productId = productId item, oi_variantId = variantId item,
                        oi_name = name item, oi_quantity = quantity item,
                        oi_price = iv_price iv, oi_variant = iv\<rparr>)"

fun map_items :: "line_item list \<Rightarrow> order_item list option" where
  "map_items [] = Some []"
| "map_items (item # items) =
     (case to_order_item item of
        None \<Rightarrow> None
      | Some oi \<Rightarrow> map_option ((#) oi) (map_items items))"

section \<open>Coupon evaluation\<close>

text \<open>
  \<open>Coupon.findOne({name: couponCode, isListed: "active", expireOn: {$gt: new Date()}})\<close>.
\<close>

definition find_coupon :: "coupon list \<Rightarrow> nat \<Rightarrow> string \<Rightarrow> coupon option" where
  "find_coupon cs t c =
     find (\<lambda>k. c_name k = c \<and> isListed k = ''active'' \<and> t < expireOn k) cs"

definition coupon_discount :: "coupon \<Rightarrow> rat \<Rightarrow> rat" where
  "coupon_discount k subtotal =
     min (if CouponType k = ''percentage'' then (subtotal * offerPrice k) / 100
          else offerPrice k) subtotal"

text \<open>
  The coupon block, the same in placeOrder and in placeWalletOrder: the pair
  \<open>(appliedCoupon, discountAmount)\<close> after it.
\<close>

definition apply_coupon :: "coupon list \<Rightarrow> nat \<Rightarrow> string option \<Rightarrow> rat \<Rightarrow> coupon option \<times> rat" where
  "apply_coupon cs t couponCode subtotal =
     (if falsy couponCode then (None, 0)
      else (case find_coupon cs t (the couponCode) of
              None \<Rightarrow> (None, 0)
            | Some k \<Rightarrow> (Some k, coupon_discount k subtotal)))"

definition coupon_snapshot :: "coupon option \<Rightarrow> rat \<Rightarrow> applied_coupon option" where
  "coupon_snapshot appliedCoupon d =
     map_option (\<lambda>k. \<lparr>couponId = c_id k, code = c_name k, discountType = CouponType k,
                      ac_discountAmount = d\<rparr>) appliedCoupon"

text \<open>\<open>finalAmount || (totalAmount - discountAmount)\<close>.\<close>

definition final_or :: "rat option \<Rightarrow> rat \<Rightarrow> rat" where
  "final_or fa dflt = (case fa of None \<Rightarrow> dflt | Some a \<Rightarrow> (if a = 0 then dflt else a))"

section \<open>Order creation\<close>

text \<open>
  The body of \<open>POST /orders\<close>. \<open>totalAmount\<close> is taken to be a number;
  \<open>finalAmount\<close> is optional.
\<close>

record order_request =
  r_userId :: "oid option"
  r_products :: "line_item list"
  r_shippingAddress :: "string option"
  r_paymentMethod :: "string option"
  r_couponCode :: "string option"
  r_totalAmount :: rat
  r_finalAmount :: "rat option"
  r_razorpayOrderId :: "string option"
  r_status :: "string option"

definition placeOrder :: "order_request \<Rightarrow> state \<Rightarrow> state \<times> response" where
  "placeOrder req s =
     (if r_userId req = None \<or> r_products req = [] \<or> falsy (r_shippingAddress req)
         \<or> falsy (r_paymentMethod req)
      then (s, Response 400 ''All fields are required.'')
      else
        let (appliedCoupon, discount) =
              apply_coupon (coupons s) (now s) (r_couponCode req) (r_totalAmount req)
        in (case first_unavailable (products s) (r_products req) of
              Some item \<Rightarrow> (s, Response 400 (''Insufficient stock for product '' @ name item))
            | None \<Rightarrow>
               (case map_items (r_products req) of
                  None \<Rightarrow> (s, Response 500 ''Failed to place order'')
                | Some items \<Rightarrow>
                    let failed = (r_status req = Some ''Payment Failed'');
                        method = the (r_paymentMethod req);
                        orderData =
                          \<lparr>o_id = next_oid s,
                           o_userId = the (r_userId req),
                           o_products = items,
                           shippingAddress = the (r_shippingAddress req),
                           paymentMethod = method,
                           totalAmount = r_totalAmount req,
                           o_coupon = coupon_snapshot appliedCoupon discount,
                           discountAmount = discount,
                           finalAmount =
                             final_or (r_finalAmount req) (r_totalAmount req - discount),
                           orderDate = now s,
                           orderStatus = (if failed then ''Payment Failed'' else ''Processing''),
                           paymentStatus =
                             (if failed then ''Failed''
                              else if method = ''RazorpayX'' then ''Completed'' else ''Pending''),
                           razorpay =
                             (if method = ''RazorpayX'' \<and> \<not> falsy (r_razorpayOrderId req)
                              then Some \<lparr>rz_orderId = the (r_razorpayOrderId req),
                                         rz_paymentId = None, rz_signature = None\<rparr>
                              else None),
                           returnDetails = None\<rparr>;
                        s1 = s\<lparr>orders := orders s @ [orderData], next_oid := next_oid s + 1\<rparr>
                    in if orderStatus orderData \<noteq> ''Payment Failed''
                       then (s1\<lparr>products := decrement_stock (r_products req) (products s1),
                                 carts := clear_cart (the (r_userId req)) (carts s1)\<rparr>,
                             Response 201 ''Order placed successfully.'')
                       else (s1, Response 201 ''Order created with payment failure''))))"

text \<open>
  The body of \<open>POST /orders/wallet\<close>; \<open>totalAmount\<close> and \<open>finalAmount\<close>
  are taken to be numbers.
\<close>

record wallet_request =
  wr_userId :: "oid option"
  wr_products :: "line_item list"
  wr_shippingAddress :: "string option"
  wr_couponCode :: "string option"
  wr_totalAmount :: rat
  wr_finalAmount :: rat

definition find_wallet :: "oid \<Rightarrow> wallet list \<Rightarrow> wallet option" where
  "find_wallet u ws = find (\<lambda>w. w_userId w = u) ws"

definition save_wallet :: "wallet \<Rightarrow> wallet list \<Rightarrow> wallet list" where
  "save_wallet w ws = update_first (\<lambda>x. w_userId x = w_userId w) (\<lambda>_. w) ws"

definition placeWalletOrder :: "wallet_request \<Rightarrow> state \<Rightarrow> state \<times> response" where
  "placeWalletOrder req s =
     (if wr_userId req = None \<or> wr_products req = [] \<or> falsy (wr_shippingAddress req)
      then (s, Response 400 ''All fields are required.'')
      else
        (case find_wallet (the (wr_userId req)) (wallets s) of
           None \<Rightarrow> (s, Response 400 ''Insufficient wallet balance.'')
         | Some userWallet \<Rightarrow>
            if balance userWallet < wr_finalAmount req
            then (s, Response 400 ''Insufficient wallet balance.'')
            else
              let (appliedCoupon, discount) =
                    apply_coupon (coupons s) (now s) (wr_couponCode req) (wr_totalAmount req)
              in (case first_unavailable (products s) (wr_products req) of
                    Some item \<Rightarrow>
                      (s, Response 400 (''Insufficient stock for product '' @ name item))
                  | None \<Rightarrow>
                     let debited =
                           userWallet\<lparr>balance := balance userWallet - wr_finalAmount req,
                             transactions := transactions userWallet @
                               [\<lparr>transaction_id = next_oid s, t_type = ''wallet'',
                                 amount = wr_finalAmount req,
                                 t_description = Order_payment_using_wallet,
                                 t_status = ''completed'', t_date = None\<rparr>]\<rparr>;
                         s1 = s\<lparr>wallets := save_wallet debited (wallets s),
                                next_oid := next_oid s + 1\<rparr>
                     in (case map_items (wr_products req) of
                           None \<Rightarrow> (s1, Response 500 ''Failed to place order'')
                         | Some items \<Rightarrow>
                            let orderData =
                                  \<lparr>o_id = next_oid s1,
                                   o_userId = the (wr_userId req),
                                   o_products = items,
                                   shippingAddress = the (wr_shippingAddress req),
                                   paymentMethod = ''Wallet'',
                                   totalAmount = wr_totalAmount req,
                                   o_coupon = coupon_snapshot appliedCoupon discount,
                                   discountAmount = discount,
                                   finalAmount =
                                     final_or (Some (wr_finalAmount req))
                                       (wr_totalAmount req - discount),
                                   orderDate = now s,
                                   orderStatus = ''Processing'',
                                   paymentStatus = ''Completed'',
                                   razorpay = None,
                                   returnDetails = None\<rparr>;
                                s2 = s1\<lparr>orders := orders s1 @ [orderData],
                                        next_oid := next_oid s1 + 1\<rparr>
                            in (s2\<lparr>products := decrement_stock (wr_products req) (products s2),
                                    carts := clear_cart (the (wr_userId req)) (carts s2)\<rparr>,
                                Response 201 ''Order placed successfully using wallet.'')))))"

section \<open>Refunds\<close>

definition refund_transaction :: "order \<Rightarrow> state \<Rightarrow> transaction" where
  "refund_transaction ord s =
     \<lparr>transaction_id = next_oid s, t_type = ''refund'', amount = finalAmount ord,
      t_description = Refund_for_order (o_id ord), t_status = ''completed'',
      t_date = Some (now s)\<rparr>"

definition processRefund :: "order \<Rightarrow> state \<Rightarrow> state \<times> wallet" where
  "processRefund ord s =
     (let refundAmount = finalAmount ord
      in (case find_wallet (o_userId ord) (wallets s) of
            None \<Rightarrow>
              let w = \<lparr>w_userId = o_userId ord, balance = refundAmount,
                       transactions = [refund_transaction ord s]\<rparr>
              in (s\<lparr>wallets := wallets s @ [w], next_oid := next_oid s + 1\<rparr>, w)
          | Some w0 \<Rightarrow>
              let w = w0\<lparr>balance := balance w0 + refundAmount,
                         transactions := transactions w0 @ [refund_transaction ord s]\<rparr>
              in (s\<lparr>wallets := save_wallet w (wallets s), next_oid := next_oid s + 1\<rparr>, w)))"

section \<open>Status updates\<close>

definition findById :: "oid \<Rightarrow> order list \<Rightarrow> order option" where
  "findById i os = find (\<lambda>x. o_id x = i) os"

definition save_order :: "order \<Rightarrow> state \<Rightarrow> state" where
  "save_order ord s = s\<lparr>orders := update_first (\<lambda>x. o_id x = o_id ord) (\<lambda>_. ord) (orders s)\<rparr>"

definition returnOrderStatusUpdate ::
  "oid \<Rightarrow> string option \<Rightarrow> string option \<Rightarrow> string option \<Rightarrow> state \<Rightarrow> state \<times> response" where
  "returnOrderStatusUpdate i status returnReason returnDescription s =
     (if falsy status then (s, Response 400 ''Status is required'')
      else
        (case findById i (orders s) of
           None \<Rightarrow> (s, Response 404 ''Order not found'')
         | Some orderDetails \<Rightarrow>
            if status \<noteq> Some ''Returned''
            then (s, Response 400 ''Invalid status for return order'')
            else if falsy returnReason \<or> falsy returnDescription
            then (s, Response 400 ''Return reason and description are required'')
            else if orderStatus orderDetails \<noteq> ''Delivered''
            then (s, Response 400 ''Only delivered orders can be returned'')
            else
              let od1 = orderDetails\<lparr>returnDetails :=
                          Some \<lparr>reason = the returnReason,
                                rd_description = the returnDescription,
                                returnDate = now s\<rparr>\<rparr>
              in if paymentStatus od1 = ''Completed''
                 then
                   let (s1, w) = processRefund od1 s;
                       od2 = od1\<lparr>orderStatus := the status\<rparr>
                   in (save_order od2 s1, Response 200 ''Return processed successfully'')
                 else
                   (save_order (od1\<lparr>orderStatus := the status\<rparr>) s,
                    Response 200 ''Return processed successfully'')))"

text \<open>
  The restock of the cancellation branch: one \<open>findOneAndUpdate\<close> with \<open>$inc\<close> by
  \<open>item.quantity\<close> for each line item of the order.
\<close>

definition restock_cancelled :: "order_item list \<Rightarrow> product list \<Rightarrow> product list" where
  "restock_cancelled items ps =
     fold (\<lambda>item. inc_stock (oi_productId item) (oi_variantId item) (oi_quantity item)) items ps"

text \<open>
  The restock of the return branch of the generic endpoint. \<open>products.map(async ...)\<close>
  starts the callback of every line item before any of them resumes, so every
  \<open>Product.findOne({_id})\<close> is issued, and reads the collection, before the first
  \<open>product.save()\<close> is: each callback computes its new quantity from the collection as
  it was when the branch began (\<open>snapshot\<close>). \<open>findIndex\<close> finds the variant in that
  copy, \<open>+=\<close> changes that element, and \<open>save\<close> writes the changed array element of the
  document with the copy's \<open>_id\<close>; a missing product or variant is logged and skipped.
  The saves are applied in the order of the line items, so of two line items on one
  variant the later save overwrites the earlier one.
\<close>

definition restock_returned_item ::
  "product list \<Rightarrow> order_item \<Rightarrow> product list \<Rightarrow> product list" where
  "restock_returned_item snapshot item ps =
     (case find (\<lambda>d. p_id d = oi_productId item) snapshot of
        None \<Rightarrow> ps
      | Some pdoc \<Rightarrow>
         (case findIndex (\<lambda>x. v_id x = oi_variantId item) (variants pdoc) of
            None \<Rightarrow> ps
          | Some variantIndex \<Rightarrow>
             let x = variants pdoc ! variantIndex;
                 x' = x\<lparr>availableQuantity := availableQuantity x + oi_quantity item\<rparr>
             in update_first (\<lambda>d. p_id d = p_id pdoc)
                  (\<lambda>d. d\<lparr>variants := (variants d)[variantIndex := x']\<rparr>) ps))"

definition restock_returned :: "order_item list \<Rightarrow> product list \<Rightarrow> product list" where
  "restock_returned items ps = fold (restock_returned_item ps) items ps"

definition valid_statuses :: "string list" where
  "valid_statuses =
     [''Processing'', ''Confirmed'', ''Shipped'', ''Delivered'', ''Cancelled'', ''Returned'']"

text \<open>
  The cancellation block after its guard. The \<open>else if\<close> of the source repeats the
  first condition with one more conjunct, so it is never taken; it is kept as written.
\<close>

definition cancel_effects :: "order \<Rightarrow> state \<Rightarrow> state" where
  "cancel_effects orderDetails s =
     (let s1 = s\<lparr>products := restock_cancelled (o_products orderDetails) (products s)\<rparr>
      in if paymentMethod orderDetails = ''RazorpayX''
            \<and> paymentStatus orderDetails = ''Completed''
         then fst (processRefund orderDetails s1)
         else if paymentMethod orderDetails = ''RazorpayX''
            \<and> orderStatus orderDetails \<in> set [''Processing'', ''Confirmed'']
            \<and> paymentStatus orderDetails = ''Completed''
         then fst (processRefund orderDetails s1)
         else s1)"

text \<open>The return block of the generic endpoint after its guard.\<close>

definition return_effects :: "order \<Rightarrow> state \<Rightarrow> state" where
  "return_effects orderDetails s =
     (let s1 = s\<lparr>products := restock_returned (o_products orderDetails) (products s)\<rparr>
      in if paymentStatus orderDetails = ''Completed''
         then fst (processRefund orderDetails s1)
         else s1)"

text \<open>The tail of the generic endpoint: the writes to the order and its save.\<close>

definition finish_update :: "string \<Rightarrow> order \<Rightarrow> state \<Rightarrow> state \<times> response" where
  "finish_update status orderDetails s =
     (let od1 = (if status = ''Processing''
                 then orderDetails\<lparr>paymentStatus := ''Completed''\<rparr> else orderDetails);
          od2 = od1\<lparr>orderStatus := status\<rparr>;
          od3 = (if orderStatus od2 = ''Delivered''
                 then od2\<lparr>paymentStatus := ''Completed''\<rparr> else od2)
      in (save_order od3 s, Response 200 ''Order status updated successfully''))"

definition orderStatusUpdate :: "oid \<Rightarrow> string option \<Rightarrow> state \<Rightarrow> state \<times> response" where
  "orderStatusUpdate i status_opt s =
     (if falsy status_opt then (s, Response 400 ''Status is required'')
      else
        let status = the status_opt
        in (case findById i (orders s) of
              None \<Rightarrow> (s, Response 404 ''Order not found'')
            | Some orderDetails \<Rightarrow>
               if status \<notin> set valid_statuses
               then (s, Response 400 ''Invalid order status'')
               else if status = ''Cancelled''
               then
                 (if orderStatus orderDetails = ''Shipped''
                     \<or> orderStatus orderDetails = ''Delivered''
                  then (s, Response 400 (''Cannot cancel the order with current status ''
                                          @ orderStatus orderDetails))
                  else finish_update status orderDetails (cancel_effects orderDetails s))
               else if status = ''Returned''
               then
                 (if orderStatus orderDetails \<noteq> ''Delivered''
                  then (s, Response 400 ''Only delivered orders can be returned'')
                  else finish_update status orderDetails (return_effects orderDetails s))
               else finish_update status orderDetails s))"

section \<open>Gateway payment verification\<close>

text \<open>
  \<open>crypto.createHmac("sha256", secret).update(body).digest("hex")\<close> is a parameter of
  the model: \<open>hmac secret body\<close>. The secret is \<open>process.env.RAZORPAY_KEY_SECRET\<close>.
\<close>

record verify_request =
  razorpay_order_id :: string
  razorpay_payment_id :: string
  razorpay_signature :: string

definition expectedSignature ::
  "(string \<Rightarrow> string \<Rightarrow> string) \<Rightarrow> string \<Rightarrow> verify_request \<Rightarrow> string" where
  "expectedSignature hmac secret req =
     hmac secret (razorpay_order_id req @ ''|'' @ razorpay_payment_id req)"

definition has_gateway_id :: "string \<Rightarrow> order \<Rightarrow> bool" where
  "has_gateway_id g ord = (case razorpay ord of None \<Rightarrow> False | Some r \<Rightarrow> rz_orderId r = g)"

definition verifyRazorpayPayment ::
  "(string \<Rightarrow> string \<Rightarrow> string) \<Rightarrow> string \<Rightarrow> verify_request \<Rightarrow> state \<Rightarrow> state \<times> response" where
  "verifyRazorpayPayment hmac secret req s =
     (let isAuthentic = (expectedSignature hmac secret req = razorpay_signature req)
      in if \<not> isAuthentic then (s, Response 400 ''Payment verification failed'')
         else
           (s\<lparr>orders :=
                update_first (has_gateway_id (razorpay_order_id req))
                  (\<lambda>ord. ord\<lparr>razorpay :=
                            map_option (\<lambda>r. r\<lparr>rz_paymentId := Some (razorpay_payment_id req),
                                               rz_signature := Some (razorpay_signature req)\<rparr>)
                              (razorpay ord),
                          paymentStatus := ''Completed''\<rparr>) (orders s)\<rparr>,
            Response 200 ''Payment verified successfully''))"

section \<open>Observations on a state\<close>

text \<open>
  The stock of variant \<open>v\<close> of product \<open>p\<close>, as the \<open>$inc\<close> updates address it; the
  balance and the transaction log of a user's wallet (zero and empty without a wallet);
  the quantity an order holds of a variant, summed over its line items.
\<close>

definition stock :: "product list \<Rightarrow> oid \<Rightarrow> oid \<Rightarrow> int option" where
  "stock ps p v =
     (case find (has_variant p v) ps of
        None \<Rightarrow> None
      | Some d \<Rightarrow> map_option availableQuantity (find (\<lambda>x. v_id x = v) (variants d)))"

definition balance_of :: "state \<Rightarrow> oid \<Rightarrow> rat" where
  "balance_of s u = (case find_wallet u (wallets s) of None \<Rightarrow> 0 | Some w \<Rightarrow> balance w)"

definition transactions_of :: "state \<Rightarrow> oid \<Rightarrow> transaction list" where
  "transactions_of s u =
     (case find_wallet u (wallets s) of None \<Rightarrow> [] | Some w \<Rightarrow> transactions w)"

text \<open>
  The transaction ids held by the wallets of a state, and the condition that all of them
  were issued by the ObjectId generator before its current position: \<open>next_oid\<close> is
  above every one of them. The empty collection satisfies it and every operation of the
  controller keeps it.
\<close>

definition transaction_ids :: "state \<Rightarrow> oid list" where
  "transaction_ids s = concat (map (\<lambda>w. map transaction_id (transactions w)) (wallets s))"

definition ids_issued :: "state \<Rightarrow> bool" where
  "ids_issued s = list_all (\<lambda>i. i < next_oid s) (transaction_ids s)"

definition ordered_quantity :: "order_item list \<Rightarrow> oid \<Rightarrow> oid \<Rightarrow> int" where
  "ordered_quantity items p v =
     sum_list (map oi_quantity
       (filter (\<lambda>item. oi_productId item = p \<and> oi_variantId item = v) items))"

text \<open>The stock of variant \<open>v\<close> inside one product document.\<close>

definition variant_stock :: "oid \<Rightarrow> product \<Rightarrow> int option" where
  "variant_stock v d = map_option availableQuantity (find (\<lambda>x. v_id x = v) (variants d))"

section \<open>Example states and requests\<close>

text \<open>
  A small shop: product 1 with the variants 10 (sold out) and 11, product 2 with the
  variant 20; user 7 with a wallet of 500 and a cart; four coupons, of which OLD expires
  at the current time 50 and OFF is inactive. The order 100 of user 7 holds 2 units of
  variant 20 and is parameterised by its order status, payment method and payment status.
\<close>

definition ex_products :: "product list" where
  "ex_products =
     [\<lparr>p_id = 1, variants = [\<lparr>v_id = 10, availableQuantity = 0\<rparr>,
                              \<lparr>v_id = 11, availableQuantity = 10\<rparr>]\<rparr>,
      \<lparr>p_id = 2, variants = [\<lparr>v_id = 20, availableQuantity = 5\<rparr>]\<rparr>]"

definition ex_order :: "string \<Rightarrow> string \<Rightarrow> string \<Rightarrow> order" where
  "ex_order st pm ps =
     \<lparr>o_id = 100, o_userId = 7,
      o_products = [\<lparr>oi_productId = 2, oi_variantId = 20, oi_name = ''lamp'',
                     oi_quantity = 2, oi_price = 150, oi_variant = \<lparr>iv_price = 150\<rparr>\<rparr>],
      shippingAddress = ''12 Hill Road'', paymentMethod = pm, totalAmount = 300,
      o_coupon = None, discountAmount = 0, finalAmount = 300, orderDate = 40,
      orderStatus = st, paymentStatus = ps, razorpay = None, returnDetails = None\<rparr>"

definition ex_coupon_ten :: coupon where
  "ex_coupon_ten =
     \<lparr>c_id = 31, c_name = ''TEN'', isListed = ''active'', expireOn = 90,
      CouponType = ''percentage'', offerPrice = 10\<rparr>"

definition ex_coupon_flat :: coupon where
  "ex_coupon_flat =
     \<lparr>c_id = 32, c_name = ''FLAT500'', isListed = ''active'', expireOn = 90,
      CouponType = ''flat'', offerPrice = 500\<rparr>"

definition ex_coupons :: "coupon list" where
  "ex_coupons =
     [ex_coupon_ten, ex_coupon_flat,
      \<lparr>c_id = 33, c_name = ''OLD'', isListed = ''active'', expireOn = 50,
       CouponType = ''flat'', offerPrice = 20\<rparr>,
      \<lparr>c_id = 34, c_name = ''OFF'', isListed = ''inactive'', expireOn = 90,
       CouponType = ''flat'', offerPrice = 20\<rparr>]"

definition ex_state :: "order list \<Rightarrow> state" where
  "ex_state os =
     \<lparr>products = ex_products, orders = os,
      wallets = [\<lparr>w_userId = 7, balance = 500, transactions = []\<rparr>],
      carts = [\<lparr>cart_userId = 7, cart_items = [2]\<rparr>],
      coupons = ex_coupons, next_oid = 1000, now = 50\<rparr>"

definition ex_cancelled_once :: state where
  "ex_cancelled_once =
     fst (orderStatusUpdate 100 (Some ''Cancelled'')
            (ex_state [ex_order ''Processing'' ''RazorpayX'' ''Completed'']))"

definition ex_line_item :: "oid \<Rightarrow> oid \<Rightarrow> int \<Rightarrow> line_item" where
  "ex_line_item p v q =
     \<lparr>productId = p, variantId = v, name = ''lamp'', quantity = q,
      variant = Some \<lparr>iv_price = 150\<rparr>\<rparr>"

definition ex_wallet_request :: "oid \<Rightarrow> line_item \<Rightarrow> rat \<Rightarrow> wallet_request" where
  "ex_wallet_request u item fa =
     \<lparr>wr_userId = Some u, wr_products = [item],
      wr_shippingAddress = Some ''12 Hill Road'', wr_couponCode = None,
      wr_totalAmount = 300, wr_finalAmount = fa\<rparr>"

definition ex_order_request :: "line_item \<Rightarrow> string option \<Rightarrow> rat option \<Rightarrow> order_request" where
  "ex_order_request item c fa =
     \<lparr>r_userId = Some 7, r_products = [item],
      r_shippingAddress = Some ''12 Hill Road'', r_paymentMethod = Some ''COD'',
      r_couponCode = c, r_totalAmount = 300, r_finalAmount = fa,
      r_razorpayOrderId = None, r_status = None\<rparr>"

definition ex_hmac :: "string \<Rightarrow> string \<Rightarrow> string" where
  "ex_hmac k m = rev k @ m"

definition ex_verify_request :: "string \<Rightarrow> verify_request" where
  "ex_verify_request sg =
     \<lparr>razorpay_order_id = ''order_1'', razorpay_payment_id = ''pay_1'',
      razorpay_signature = sg\<rparr>"

definition ex_gateway_order :: order where
  "ex_gateway_order =
     (ex_order ''Processing'' ''RazorpayX'' ''Pending'')
       \<lparr>razorpay := Some \<lparr>rz_orderId = ''order_1'', rz_paymentId = None,
                            rz_signature = None\<rparr>\<rparr>"

definition ex_overridden :: state where
  "ex_overridden =
     fst (placeOrder (ex_order_request (ex_line_item 2 20 2) None (Some 500)) (ex_state []))"

definition ex_overridden_wallet :: state where
  "ex_overridden_wallet =
     fst (placeWalletOrder (ex_wallet_request 7 (ex_line_item 2 20 2) 400) (ex_state []))"

definition ex_delivered :: state where
  "ex_delivered = ex_state [ex_order ''Delivered'' ''RazorpayX'' ''Completed'']"

definition ex_returned_dedicated :: "state \<times> response" where
  "ex_returned_dedicated =
     returnOrderStatusUpdate 100 (Some ''Returned'') (Some ''damaged'')
       (Some ''arrived broken'') ex_delivered"

definition ex_returned_generic :: "state \<times> response" where
  "ex_returned_generic = orderStatusUpdate 100 (Some ''Returned'') ex_delivered"

definition ex_two_items :: "order_item list" where
  "ex_two_items =
     [\<lparr>oi_productId = 2, oi_variantId = 20, oi_name = ''lamp'', oi_quantity = 2,
       oi_price = 150, oi_variant = \<lparr>iv_price = 150\<rparr>\<rparr>,
      \<lparr>oi_productId = 2, oi_variantId = 20, oi_name = ''lamp'', oi_quantity = 3,
       oi_price = 150, oi_variant = \<lparr>iv_price = 150\<rparr>\<rparr>]"

definition ex_refund :: transaction where
  "ex_refund =
     \<lparr>transaction_id = 1000, t_type = ''refund'', amount = 300,
      t_description = Refund_for_order 100, t_status = ''completed'', t_date = Some 50\<rparr>"

definition ex_oversell :: "state \<times> response" where
  "ex_oversell =
     placeOrder (ex_order_request (ex_line_item 1 10 5) None None) (ex_state [])"

definition ex_oversell_wallet :: "state \<times> response" where
  "ex_oversell_wallet =
     placeWalletOrder (ex_wallet_request 7 (ex_line_item 1 10 5) 300) (ex_state [])"

definition ex_wallets_used :: state where
  "ex_wallets_used =
     (ex_state [])\<lparr>wallets :=
        [\<lparr>w_userId = 7, balance = 500,
          transactions = [\<lparr>transaction_id = 998, t_type = ''wallet'', amount = 40,
                           t_description = Order_payment_using_wallet,
                           t_status = ''completed'', t_date = None\<rparr>]\<rparr>,
         \<lparr>w_userId = 8, balance = 0,
          transactions = [\<lparr>transaction_id = 999, t_type = ''refund'', amount = 10,
                           t_description = Refund_for_order 90,
                           t_status = ''completed'', t_date = Some 45\<rparr>]\<rparr>]\<rparr>"

section \<open>Lemmas on the storage primitives\<close>

lemma find_update_first_same:
  "(\<And>x. P x \<Longrightarrow> P (f x)) \<Longrightarrow> find P (update_first P f xs) = map_option f (find P xs)"
  by (induction xs) auto

lemma find_update_first_obs:
  assumes "\<And>x. P x \<Longrightarrow> Q (f x) = Q x"
      and "\<And>x. P x \<Longrightarrow> Q x \<Longrightarrow> g (f x) = g x"
  shows "map_option g (find Q (update_first P f xs)) = map_option g (find Q xs)"
  using assms by (induction xs) auto

lemma find_update_first_other:
  assumes "\<And>x. P x \<Longrightarrow> \<not> Q x" and "\<And>x. P x \<Longrightarrow> \<not> Q (f x)"
  shows "find Q (update_first P f xs) = find Q xs"
  using assms by (induction xs) auto

lemma list_ex_update_first:
  "(\<And>x. P x \<Longrightarrow> Q (f x) = Q x) \<Longrightarrow> list_ex Q (update_first P f xs) = list_ex Q xs"
  by (induction xs) auto

lemma has_variant_inc:
  "has_variant p' v' (d\<lparr>variants := update_first (\<lambda>x. v_id x = v)
      (\<lambda>x. x\<lparr>availableQuantity := availableQuantity x + q\<rparr>) (variants d)\<rparr>) = has_variant p' v' d"
  by (simp add: has_variant_def list_ex_update_first)

lemma stock_alt: "stock ps p v = Option.bind (find (has_variant p v) ps) (variant_stock v)"
  by (simp add: stock_def variant_stock_def split: option.splits)

lemma bind_find_update_first_obs:
  assumes "\<And>x. P x \<Longrightarrow> Q (f x) = Q x"
      and "\<And>x. P x \<Longrightarrow> Q x \<Longrightarrow> g (f x) = g x"
  shows "Option.bind (find Q (update_first P f xs)) g = Option.bind (find Q xs) g"
  using assms by (induction xs) auto

lemma variant_stock_inc_same:
  "variant_stock v (d\<lparr>variants := update_first (\<lambda>x. v_id x = v)
      (\<lambda>x. x\<lparr>availableQuantity := availableQuantity x + q\<rparr>) (variants d)\<rparr>)
   = map_option (\<lambda>n. n + q) (variant_stock v d)"
  by (simp add: variant_stock_def find_update_first_same option.map_comp comp_def)

lemma variant_stock_inc_other:
  "v' \<noteq> v \<Longrightarrow>
   variant_stock v' (d\<lparr>variants := update_first (\<lambda>x. v_id x = v)
      (\<lambda>x. x\<lparr>availableQuantity := availableQuantity x + q\<rparr>) (variants d)\<rparr>)
   = variant_stock v' d"
proof -
  assume ne: "v' \<noteq> v"
  have "find (\<lambda>x. v_id x = v') (update_first (\<lambda>x. v_id x = v)
      (\<lambda>x. x\<lparr>availableQuantity := availableQuantity x + q\<rparr>) (variants d))
      = find (\<lambda>x. v_id x = v') (variants d)"
    by (rule find_update_first_other) (use ne in auto)
  then show ?thesis by (simp add: variant_stock_def)
qed

lemma stock_inc_stock:
  "stock (inc_stock p v q ps) p' v' =
     (if p' = p \<and> v' = v then map_option (\<lambda>n. n + q) (stock ps p v) else stock ps p' v')"
proof (cases "p' = p \<and> v' = v")
  case True
  have "find (has_variant p v) (inc_stock p v q ps) =
        map_option (\<lambda>d. d\<lparr>variants := update_first (\<lambda>x. v_id x = v)
          (\<lambda>x. x\<lparr>availableQuantity := availableQuantity x + q\<rparr>) (variants d)\<rparr>)
          (find (has_variant p v) ps)"
    unfolding inc_stock_def by (rule find_update_first_same) (simp add: has_variant_inc)
  then show ?thesis using True
    by (cases "find (has_variant p v) ps") (simp_all add: stock_alt variant_stock_inc_same)
next
  case False
  have "Option.bind (find (has_variant p' v') (inc_stock p v q ps)) (variant_stock v')
        = Option.bind (find (has_variant p' v') ps) (variant_stock v')"
    unfolding inc_stock_def
  proof (rule bind_find_update_first_obs)
    fix x show "has_variant p' v' (x\<lparr>variants := update_first (\<lambda>x. v_id x = v)
          (\<lambda>x. x\<lparr>availableQuantity := availableQuantity x + q\<rparr>) (variants x)\<rparr>)
        = has_variant p' v' x" by (rule has_variant_inc)
  next
    fix x assume "has_variant p v x" "has_variant p' v' x"
    then have "v' \<noteq> v" using False by (auto simp: has_variant_def)
    then show "variant_stock v' (x\<lparr>variants := update_first (\<lambda>x. v_id x = v)
          (\<lambda>x. x\<lparr>availableQuantity := availableQuantity x + q\<rparr>) (variants x)\<rparr>)
        = variant_stock v' x" by (rule variant_stock_inc_other)
  qed
  then show ?thesis using False by (auto simp: stock_alt)
qed

lemma stock_restock_cancelled:
  "stock (restock_cancelled items ps) p v =
     map_option (\<lambda>n. n + ordered_quantity items p v) (stock ps p v)"
  unfolding restock_cancelled_def
proof (induction items arbitrary: ps)
  case Nil
  then show ?case by (simp add: ordered_quantity_def option.map_ident)
next
  case (Cons a items)
  then show ?case
    by (cases "stock ps p v") (auto simp: stock_inc_stock ordered_quantity_def)
qed

lemma find_wallet_save:
  "find_wallet u ws = Some w0 \<Longrightarrow> w_userId w = u \<Longrightarrow> find_wallet u (save_wallet w ws) = Some w"
  by (simp add: find_wallet_def save_wallet_def find_update_first_same)

lemma find_wallet_append_new:
  "find_wallet u ws = None \<Longrightarrow> w_userId w = u \<Longrightarrow> find_wallet u (ws @ [w]) = Some w"
  by (induction ws) (auto simp: find_wallet_def)

lemma find_Some_pred: "find P xs = Some x \<Longrightarrow> P x"
  by (induction xs) (auto split: if_splits)

lemma processRefund_wallet:
  "find_wallet (o_userId ord) (wallets (fst (processRefund ord s))) = Some (snd (processRefund ord s))"
proof (cases "find_wallet (o_userId ord) (wallets s)")
  case None
  then show ?thesis by (simp add: processRefund_def Let_def find_wallet_append_new)
next
  case (Some w0)
  then have "w_userId w0 = o_userId ord"
    unfolding find_wallet_def by (rule find_Some_pred)
  with Some show ?thesis by (simp add: processRefund_def Let_def find_wallet_save)
qed

lemma processRefund_snd:
  "snd (processRefund ord s) =
     \<lparr>w_userId = o_userId ord,
      balance = balance_of s (o_userId ord) + finalAmount ord,
      transactions = transactions_of s (o_userId ord) @ [refund_transaction ord s]\<rparr>"
proof (cases "find_wallet (o_userId ord) (wallets s)")
  case None
  then show ?thesis by (simp add: processRefund_def Let_def balance_of_def transactions_of_def)
next
  case (Some w0)
  then have "w_userId w0 = o_userId ord"
    unfolding find_wallet_def by (rule find_Some_pred)
  with Some show ?thesis
    by (simp add: processRefund_def Let_def balance_of_def transactions_of_def)
qed

lemma processRefund_balance:
  "balance_of (fst (processRefund ord s)) (o_userId ord) = balance_of s (o_userId ord) + finalAmount ord"
  using processRefund_wallet [of ord s] by (simp add: balance_of_def processRefund_snd)

lemma processRefund_transactions:
  "transactions_of (fst (processRefund ord s)) (o_userId ord) =
     transactions_of s (o_userId ord) @ [refund_transaction ord s]"
  using processRefund_wallet [of ord s] by (simp add: transactions_of_def processRefund_snd)

lemma processRefund_frame:
  "products (fst (processRefund ord s)) = products s"
  "orders (fst (processRefund ord s)) = orders s"
  "carts (fst (processRefund ord s)) = carts s"
  "coupons (fst (processRefund ord s)) = coupons s"
  "now (fst (processRefund ord s)) = now s"
  "next_oid (fst (processRefund ord s)) = next_oid s + 1"
  by (simp_all add: processRefund_def Let_def split: option.splits)

lemma falsy_Some [simp]: "falsy (Some t) = (t = [])" and falsy_None [simp]: "falsy None"
  by (simp_all add: falsy_def)

lemma findById_id: "findById i os = Some ord \<Longrightarrow> o_id ord = i"
  unfolding findById_def by (drule find_Some_pred) simp

lemma findById_save_order:
  "findById i (orders s) = Some ord \<Longrightarrow> o_id ord' = i \<Longrightarrow>
   findById i (orders (save_order ord' s)) = Some ord'"
  by (simp add: findById_def save_order_def find_update_first_same)

lemma save_order_frame:
  "products (save_order ord s) = products s"
  "wallets (save_order ord s) = wallets s"
  "carts (save_order ord s) = carts s"
  "next_oid (save_order ord s) = next_oid s"
  "balance_of (save_order ord s) u = balance_of s u"
  "transactions_of (save_order ord s) u = transactions_of s u"
  by (simp_all add: save_order_def balance_of_def transactions_of_def)

lemma orderStatusUpdate_cancel_rejected:
  assumes "findById i (orders s) = Some ord"
      and "orderStatus ord = ''Shipped'' \<or> orderStatus ord = ''Delivered''"
  shows "orderStatusUpdate i (Some ''Cancelled'') s =
           (s, Response 400 (''Cannot cancel the order with current status '' @ orderStatus ord))"
  using assms by (auto simp: orderStatusUpdate_def valid_statuses_def)

lemma orderStatusUpdate_cancel_accepted:
  assumes "findById i (orders s) = Some ord"
      and "orderStatus ord \<noteq> ''Shipped''" and "orderStatus ord \<noteq> ''Delivered''"
  shows "orderStatusUpdate i (Some ''Cancelled'') s =
           (save_order (ord\<lparr>orderStatus := ''Cancelled''\<rparr>) (cancel_effects ord s),
            Response 200 ''Order status updated successfully'')"
  using assms by (simp add: orderStatusUpdate_def valid_statuses_def finish_update_def)

lemma cancel_effects_orders: "orders (cancel_effects ord s) = orders s"
  by (simp add: cancel_effects_def Let_def processRefund_frame)

lemma cancel_effects_stock:
  "stock (products (cancel_effects ord s)) p v =
     map_option (\<lambda>n. n + ordered_quantity (o_products ord) p v) (stock (products s) p v)"
  by (simp add: cancel_effects_def Let_def processRefund_frame stock_restock_cancelled)

lemma refund_transaction_products [simp]:
  "refund_transaction ord (s\<lparr>products := ps\<rparr>) = refund_transaction ord s"
  by (simp add: refund_transaction_def)

lemma wallet_obs_products [simp]:
  "balance_of (s\<lparr>products := ps\<rparr>) u = balance_of s u"
  "transactions_of (s\<lparr>products := ps\<rparr>) u = transactions_of s u"
  by (simp_all add: balance_of_def transactions_of_def)

lemma cancel_effects_refund:
  assumes "paymentMethod ord = ''RazorpayX''" and "paymentStatus ord = ''Completed''"
  shows "transactions_of (cancel_effects ord s) (o_userId ord) =
           transactions_of s (o_userId ord) @ [refund_transaction ord s]"
    and "balance_of (cancel_effects ord s) (o_userId ord) =
           balance_of s (o_userId ord) + finalAmount ord"
  using assms
  by (simp_all add: cancel_effects_def Let_def processRefund_transactions processRefund_balance)

lemma cancel_effects_no_refund:
  assumes "\<not> (paymentMethod ord = ''RazorpayX'' \<and> paymentStatus ord = ''Completed'')"
  shows "wallets (cancel_effects ord s) = wallets s"
  using assms by (auto simp: cancel_effects_def Let_def)

lemma ex_findById:
  "findById 100 (orders (ex_state [ex_order st pm ps])) = Some (ex_order st pm ps)"
  by (simp add: findById_def ex_state_def ex_order_def)

lemma ex_cancelled_once_eq:
  "ex_cancelled_once =
     \<lparr>products =
        [\<lparr>p_id = 1, variants = [\<lparr>v_id = 10, availableQuantity = 0\<rparr>,
                                 \<lparr>v_id = 11, availableQuantity = 10\<rparr>]\<rparr>,
         \<lparr>p_id = 2, variants = [\<lparr>v_id = 20, availableQuantity = 7\<rparr>]\<rparr>],
      orders = [ex_order ''Cancelled'' ''RazorpayX'' ''Completed''],
      wallets = [\<lparr>w_userId = 7, balance = 800,
                  transactions = [\<lparr>transaction_id = 1000, t_type = ''refund'', amount = 300,
                                   t_description = Refund_for_order 100,
                                   t_status = ''completed'', t_date = Some 50\<rparr>]\<rparr>],
      carts = [\<lparr>cart_userId = 7, cart_items = [2]\<rparr>],
      coupons = ex_coupons, next_oid = 1001, now = 50\<rparr>"
  by (simp add: ex_cancelled_once_def orderStatusUpdate_def falsy_def findById_def ex_state_def
      ex_order_def valid_statuses_def finish_update_def cancel_effects_def Let_def
      restock_cancelled_def inc_stock_def has_variant_def ex_products_def processRefund_def
      find_wallet_def save_wallet_def refund_transaction_def save_order_def)

lemma find_None_pred: "find P xs = None \<Longrightarrow> x \<in> set xs \<Longrightarrow> \<not> P x"
  by (induction xs) (auto split: if_splits)

lemma find_Some_set: "find P xs = Some x \<Longrightarrow> x \<in> set xs"
  by (induction xs) (auto split: if_splits)

lemma apply_coupon_None [simp]: "apply_coupon cs t None tot = (None, 0)"
  by (simp add: apply_coupon_def)

lemma apply_coupon_Some:
  assumes "fst (apply_coupon cs t c tot) = Some k"
  shows "c = Some (c_name k)" and "k \<in> set cs" and "isListed k = ''active''"
    and "t < expireOn k" and "snd (apply_coupon cs t c tot) = coupon_discount k tot"
proof -
  from assms obtain code where c: "c = Some code" and f: "find_coupon cs t code = Some k"
    by (cases c) (auto simp: apply_coupon_def split: if_splits option.splits)
  from f have "c_name k = code \<and> isListed k = ''active'' \<and> t < expireOn k"
    unfolding find_coupon_def by (rule find_Some_pred)
  with c show "c = Some (c_name k)" "isListed k = ''active''" "t < expireOn k" by simp_all
  from f show "k \<in> set cs" unfolding find_coupon_def by (rule find_Some_set)
  from assms c f show "snd (apply_coupon cs t c tot) = coupon_discount k tot"
    by (auto simp: apply_coupon_def split: if_splits)
qed

lemma apply_coupon_None_zero:
  "fst (apply_coupon cs t c tot) = None \<Longrightarrow> snd (apply_coupon cs t c tot) = 0"
  by (auto simp: apply_coupon_def split: if_splits option.splits)



lemma placeOrder_created:
  assumes "status_code (snd (placeOrder req s)) = 201"
  shows "\<exists>ord. orders (fst (placeOrder req s)) = orders s @ [ord]
           \<and> totalAmount ord = r_totalAmount req
           \<and> discountAmount ord =
               snd (apply_coupon (coupons s) (now s) (r_couponCode req) (r_totalAmount req))
           \<and> o_coupon ord =
               coupon_snapshot
                 (fst (apply_coupon (coupons s) (now s) (r_couponCode req) (r_totalAmount req)))
                 (snd (apply_coupon (coupons s) (now s) (r_couponCode req) (r_totalAmount req)))
           \<and> finalAmount ord =
               final_or (r_finalAmount req) (totalAmount ord - discountAmount ord)"
  using assms
  by (auto simp: placeOrder_def Let_def split: if_splits option.splits prod.splits)

lemma placeWalletOrder_created:
  assumes "status_code (snd (placeWalletOrder req s)) = 201"
  shows "\<exists>ord. orders (fst (placeWalletOrder req s)) = orders s @ [ord]
           \<and> totalAmount ord = wr_totalAmount req
           \<and> discountAmount ord =
               snd (apply_coupon (coupons s) (now s) (wr_couponCode req) (wr_totalAmount req))
           \<and> o_coupon ord =
               coupon_snapshot
                 (fst (apply_coupon (coupons s) (now s) (wr_couponCode req) (wr_totalAmount req)))
                 (snd (apply_coupon (coupons s) (now s) (wr_couponCode req) (wr_totalAmount req)))
           \<and> finalAmount ord =
               final_or (Some (wr_finalAmount req)) (totalAmount ord - discountAmount ord)"
  using assms
  by (auto simp: placeWalletOrder_def Let_def split: if_splits option.splits prod.splits)

lemma coupon_snapshot_None [simp]: "(coupon_snapshot a d = None) = (a = None)"
  by (simp add: coupon_snapshot_def)

lemma apply_coupon_le:
  "fst (apply_coupon cs t c tot) \<noteq> None \<or> 0 \<le> tot \<Longrightarrow> snd (apply_coupon cs t c tot) \<le> tot"
  by (auto simp: apply_coupon_def coupon_discount_def split: if_splits option.splits)

lemma apply_coupon_nonneg:
  assumes "0 \<le> tot" and "\<forall>k \<in> set cs. 0 \<le> offerPrice k"
  shows "0 \<le> snd (apply_coupon cs t c tot)"
proof (cases "fst (apply_coupon cs t c tot)")
  case None
  then show ?thesis by (simp add: apply_coupon_None_zero)
next
  case (Some k)
  then have "k \<in> set cs" and d: "snd (apply_coupon cs t c tot) = coupon_discount k tot"
    by (rule apply_coupon_Some)+
  with assms have "0 \<le> offerPrice k" by blast
  with assms(1) show ?thesis by (simp add: d coupon_discount_def)
qed

lemma final_or_simps [simp]:
  "final_or None d = d" "final_or (Some 0) d = d" "a \<noteq> 0 \<Longrightarrow> final_or (Some a) d = a"
  by (simp_all add: final_or_def)

lemma ex_placeOrder_created:
  "status_code (snd (placeOrder (ex_order_request (ex_line_item 2 20 2) c fa) (ex_state []))) = 201"
  by (simp add: placeOrder_def ex_order_request_def ex_line_item_def ex_state_def
      ex_products_def first_unavailable_def stock_query_def to_order_item_def Let_def
      split: prod.splits)

lemma ex_placeWalletOrder_created:
  "fa \<le> 500 \<Longrightarrow>
   status_code (snd (placeWalletOrder (ex_wallet_request 7 (ex_line_item 2 20 2) fa)
     (ex_state []))) = 201"
  by (simp add: placeWalletOrder_def ex_wallet_request_def ex_line_item_def ex_state_def
      ex_products_def first_unavailable_def stock_query_def to_order_item_def Let_def
      find_wallet_def split: prod.splits)

lemma ex_coupons_nonneg: "\<forall>k \<in> set (coupons (ex_state os)). 0 \<le> offerPrice k"
  by (simp add: ex_state_def ex_coupons_def ex_coupon_ten_def ex_coupon_flat_def)

lemma returnOrderStatusUpdate_products:
  "products (fst (returnOrderStatusUpdate i st r d s)) = products s"
  by (simp add: returnOrderStatusUpdate_def Let_def save_order_def processRefund_frame
      case_prod_beta split: option.splits)

lemma ex_returned_dedicated_eq:
  "ex_returned_dedicated =
     (\<lparr>products = ex_products,
       orders = [(ex_order ''Returned'' ''RazorpayX'' ''Completed'')
                   \<lparr>returnDetails := Some \<lparr>reason = ''damaged'',
                       rd_description = ''arrived broken'', returnDate = 50\<rparr>\<rparr>],
       wallets = [\<lparr>w_userId = 7, balance = 800, transactions = [ex_refund]\<rparr>],
       carts = [\<lparr>cart_userId = 7, cart_items = [2]\<rparr>],
       coupons = ex_coupons, next_oid = 1001, now = 50\<rparr>,
      Response 200 ''Return processed successfully'')"
  by (simp add: ex_returned_dedicated_def ex_delivered_def returnOrderStatusUpdate_def
      falsy_def findById_def ex_state_def ex_order_def Let_def processRefund_def
      find_wallet_def save_wallet_def refund_transaction_def save_order_def ex_refund_def)

lemma ex_returned_generic_eq:
  "ex_returned_generic =
     (\<lparr>products =
         [\<lparr>p_id = 1, variants = [\<lparr>v_id = 10, availableQuantity = 0\<rparr>,
                                  \<lparr>v_id = 11, availableQuantity = 10\<rparr>]\<rparr>,
          \<lparr>p_id = 2, variants = [\<lparr>v_id = 20, availableQuantity = 7\<rparr>]\<rparr>],
       orders = [ex_order ''Returned'' ''RazorpayX'' ''Completed''],
       wallets = [\<lparr>w_userId = 7, balance = 800, transactions = [ex_refund]\<rparr>],
       carts = [\<lparr>cart_userId = 7, cart_items = [2]\<rparr>],
       coupons = ex_coupons, next_oid = 1001, now = 50\<rparr>,
      Response 200 ''Order status updated successfully'')"
  by (simp add: ex_returned_generic_def ex_delivered_def orderStatusUpdate_def
      falsy_def findById_def ex_state_def ex_order_def valid_statuses_def finish_update_def
      return_effects_def restock_returned_def restock_returned_item_def ex_products_def
      Let_def processRefund_def find_wallet_def save_wallet_def refund_transaction_def
      save_order_def ex_refund_def)

lemma restock_returned_two_items:
  "stock ex_products 2 20 = Some 5
   \<and> stock (restock_returned ex_two_items ex_products) 2 20 = Some 8
   \<and> stock (restock_cancelled ex_two_items ex_products) 2 20 = Some 10"
  by (simp add: restock_returned_def restock_returned_item_def restock_cancelled_def
      inc_stock_def ex_two_items_def ex_products_def stock_def has_variant_def Let_def)

lemma placeOrder_stock_check_failed:
  "first_unavailable (products s) (r_products req) = Some item \<Longrightarrow>
   fst (placeOrder req s) = s \<and> status_code (snd (placeOrder req s)) = 400"
  by (simp add: placeOrder_def case_prod_beta)

lemma placeWalletOrder_stock_check_failed:
  "first_unavailable (products s) (wr_products req) = Some item \<Longrightarrow>
   fst (placeWalletOrder req s) = s \<and> status_code (snd (placeWalletOrder req s)) = 400"
  by (simp add: placeWalletOrder_def case_prod_beta split: option.splits)

lemma first_unavailable_Some:
  "first_unavailable ps items = Some item \<Longrightarrow> item \<in> set items \<and> \<not> stock_query ps item"
  unfolding first_unavailable_def by (auto dest: find_Some_pred find_Some_set)

lemma first_unavailable_None:
  "first_unavailable ps items = None \<Longrightarrow> item \<in> set items \<Longrightarrow> stock_query ps item"
  unfolding first_unavailable_def by (auto dest: find_None_pred)

lemma returnOrderStatusUpdate_not_delivered:
  "findById i (orders s) = Some ord \<Longrightarrow> orderStatus ord \<noteq> ''Delivered'' \<Longrightarrow>
   fst (returnOrderStatusUpdate i st r d s) = s
   \<and> status_code (snd (returnOrderStatusUpdate i st r d s)) = 400"
  by (simp add: returnOrderStatusUpdate_def)

lemma returnOrderStatusUpdate_needs_reason:
  "findById i (orders s) = Some ord \<Longrightarrow> falsy r \<or> falsy d \<Longrightarrow>
   fst (returnOrderStatusUpdate i st r d s) = s
   \<and> status_code (snd (returnOrderStatusUpdate i st r d s)) = 400"
  by (auto simp: returnOrderStatusUpdate_def)

lemma ids_update_first_subset:
  "find P ws = Some w0 \<Longrightarrow>
   set (concat (map F (update_first P (\<lambda>_. w) ws))) \<subseteq> set (concat (map F ws)) \<union> set (F w)"
  by (induction ws) (auto split: if_splits)

lemma ids_of_found:
  "find P ws = Some w0 \<Longrightarrow> set (F w0) \<subseteq> set (concat (map F ws))"
  by (induction ws) (auto split: if_splits)

lemma transaction_ids_processRefund:
  "set (transaction_ids (fst (processRefund ord s))) \<subseteq> insert (next_oid s) (set (transaction_ids s))"
proof (cases "find_wallet (o_userId ord) (wallets s)")
  case None
  then show ?thesis
    by (auto simp: processRefund_def Let_def transaction_ids_def refund_transaction_def)
next
  case (Some w0)
  let ?F = "\<lambda>w. map transaction_id (transactions w)"
  let ?w = "w0\<lparr>balance := balance w0 + finalAmount ord,
                transactions := transactions w0 @ [refund_transaction ord s]\<rparr>"
  have u: "w_userId w0 = o_userId ord"
    using Some unfolding find_wallet_def by (rule find_Some_pred)
  have f: "find (\<lambda>x. w_userId x = o_userId ord) (wallets s) = Some w0"
    using Some by (simp add: find_wallet_def)
  have a: "set (concat (map ?F (update_first (\<lambda>x. w_userId x = o_userId ord) (\<lambda>_. ?w) (wallets s))))
           \<subseteq> set (concat (map ?F (wallets s))) \<union> set (?F ?w)"
    using f by (rule ids_update_first_subset)
  have b: "set (?F w0) \<subseteq> set (concat (map ?F (wallets s)))"
    using f by (rule ids_of_found)
  have c: "set (?F ?w) \<subseteq> insert (next_oid s) (set (?F w0))"
    by (auto simp: refund_transaction_def)
  have w: "wallets (fst (processRefund ord s)) =
          update_first (\<lambda>x. w_userId x = o_userId ord) (\<lambda>_. ?w) (wallets s)"
    using Some u by (simp add: processRefund_def Let_def save_wallet_def)
  from a b c
  have "set (concat (map ?F (update_first (\<lambda>x. w_userId x = o_userId ord) (\<lambda>_. ?w) (wallets s))))
        \<subseteq> insert (next_oid s) (set (concat (map ?F (wallets s))))"
    by blast
  then show ?thesis by (simp only: transaction_ids_def w)
qed

lemma ids_issued_fresh: "ids_issued s \<Longrightarrow> next_oid s \<notin> set (transaction_ids s)"
  by (auto simp: ids_issued_def list_all_iff)

lemma ids_issued_processRefund: "ids_issued s \<Longrightarrow> ids_issued (fst (processRefund ord s))"
proof -
  assume a: "ids_issued s"
  have "i < next_oid s + 1" if "i \<in> set (transaction_ids (fst (processRefund ord s)))" for i
  proof -
    from that transaction_ids_processRefund [of ord s]
    have "i = next_oid s \<or> i \<in> set (transaction_ids s)" by blast
    with a show ?thesis by (auto simp: ids_issued_def list_all_iff)
  qed
  then show ?thesis by (simp add: ids_issued_def list_all_iff processRefund_frame)
qed

lemma transactions_of_ids:
  "transaction_id ` set (transactions_of s u) \<subseteq> set (transaction_ids s)"
proof (cases "find_wallet u (wallets s)")
  case None
  then show ?thesis by (simp add: transactions_of_def)
next
  case (Some w)
  then have "find (\<lambda>x. w_userId x = u) (wallets s) = Some w" by (simp add: find_wallet_def)
  then have "set (map transaction_id (transactions w)) \<subseteq>
             set (concat (map (\<lambda>w. map transaction_id (transactions w)) (wallets s)))"
    by (rule ids_of_found)
  with Some show ?thesis by (simp add: transactions_of_def transaction_ids_def)
qed

lemma ids_issued_empty: "wallets s = [] \<Longrightarrow> ids_issued s"
  by (simp add: ids_issued_def transaction_ids_def)

lemma ids_issued_same:
  "ids_issued s \<Longrightarrow> wallets s' = wallets s \<Longrightarrow> next_oid s \<le> next_oid s' \<Longrightarrow> ids_issued s'"
proof -
  assume a: "ids_issued s" and w: "wallets s' = wallets s" and n: "next_oid s \<le> next_oid s'"
  have t: "transaction_ids s' = transaction_ids s" by (simp add: transaction_ids_def w)
  show ?thesis using a n unfolding ids_issued_def list_all_iff t by fastforce
qed

lemma ids_issued_step:
  assumes "ids_issued s"
      and "set (transaction_ids s') \<subseteq> insert (next_oid s) (set (transaction_ids s))"
      and "next_oid s < next_oid s'"
  shows "ids_issued s'"
proof -
  have "i < next_oid s'" if "i \<in> set (transaction_ids s')" for i
  proof -
    from that assms(2) have "i = next_oid s \<or> i \<in> set (transaction_ids s)" by blast
    with assms(1,3) show ?thesis by (auto simp: ids_issued_def list_all_iff)
  qed
  then show ?thesis by (simp add: ids_issued_def list_all_iff)
qed

lemma ids_issued_products [simp]: "ids_issued (s\<lparr>products := ps\<rparr>) = ids_issued s"
  by (simp add: ids_issued_def transaction_ids_def)

lemma ids_issued_save_order [simp]: "ids_issued (save_order ord s) = ids_issued s"
  by (simp add: ids_issued_def transaction_ids_def save_order_def)

lemma ids_issued_placeOrder: "ids_issued s \<Longrightarrow> ids_issued (fst (placeOrder req s))"
proof (rule ids_issued_same)
  show "wallets (fst (placeOrder req s)) = wallets s"
    by (simp add: placeOrder_def Let_def case_prod_beta split: option.splits)
  show "next_oid s \<le> next_oid (fst (placeOrder req s))"
    by (simp add: placeOrder_def Let_def case_prod_beta split: option.splits)
qed

lemma ids_issued_cancel_effects: "ids_issued s \<Longrightarrow> ids_issued (cancel_effects ord s)"
  by (simp add: cancel_effects_def Let_def ids_issued_processRefund)

lemma ids_issued_return_effects: "ids_issued s \<Longrightarrow> ids_issued (return_effects ord s)"
  by (simp add: return_effects_def Let_def ids_issued_processRefund)

lemma ids_issued_orderStatusUpdate:
  "ids_issued s \<Longrightarrow> ids_issued (fst (orderStatusUpdate i st s))"
  by (simp add: orderStatusUpdate_def Let_def finish_update_def ids_issued_cancel_effects
      ids_issued_return_effects split: option.splits)

lemma ids_issued_returnOrderStatusUpdate:
  "ids_issued s \<Longrightarrow> ids_issued (fst (returnOrderStatusUpdate i st r d s))"
  by (simp add: returnOrderStatusUpdate_def Let_def case_prod_beta ids_issued_processRefund
      split: option.splits)

lemma ids_issued_verifyRazorpayPayment:
  "ids_issued s \<Longrightarrow> ids_issued (fst (verifyRazorpayPayment hmac secret req s))"
  by (simp add: verifyRazorpayPayment_def Let_def ids_issued_def transaction_ids_def)

lemma transaction_ids_debit:
  assumes "find_wallet u ws = Some w0"
  shows "set (concat (map (\<lambda>w. map transaction_id (transactions w))
            (save_wallet (w0\<lparr>balance := b, transactions := transactions w0 @ [t]\<rparr>) ws)))
         \<subseteq> insert (transaction_id t) (set (concat (map (\<lambda>w. map transaction_id (transactions w)) ws)))"
proof -
  let ?F = "\<lambda>w. map transaction_id (transactions w)"
  let ?w = "w0\<lparr>balance := b, transactions := transactions w0 @ [t]\<rparr>"
  have u: "w_userId w0 = u"
    using assms unfolding find_wallet_def by (rule find_Some_pred)
  have f: "find (\<lambda>x. w_userId x = u) ws = Some w0"
    using assms by (simp add: find_wallet_def)
  have a: "set (concat (map ?F (update_first (\<lambda>x. w_userId x = u) (\<lambda>_. ?w) ws)))
           \<subseteq> set (concat (map ?F ws)) \<union> set (?F ?w)"
    using f by (rule ids_update_first_subset)
  have b: "set (?F w0) \<subseteq> set (concat (map ?F ws))"
    using f by (rule ids_of_found)
  have c: "set (?F ?w) \<subseteq> insert (transaction_id t) (set (?F w0))"
    by auto
  from a b c
  have "set (concat (map ?F (update_first (\<lambda>x. w_userId x = u) (\<lambda>_. ?w) ws)))
        \<subseteq> insert (transaction_id t) (set (concat (map ?F ws)))"
    by blast
  then show ?thesis using u by (simp add: save_wallet_def)
qed

lemma placeWalletOrder_wallets:
  "fst (placeWalletOrder req s) = s
   \<or> (\<exists>w0. find_wallet (the (wr_userId req)) (wallets s) = Some w0
        \<and> wallets (fst (placeWalletOrder req s)) =
            save_wallet
              (w0\<lparr>balance := balance w0 - wr_finalAmount req,
                  transactions := transactions w0 @
                    [\<lparr>transaction_id = next_oid s, t_type = ''wallet'',
                      amount = wr_finalAmount req,
                      t_description = Order_payment_using_wallet,
                      t_status = ''completed'', t_date = None\<rparr>]\<rparr>) (wallets s)
        \<and> next_oid s < next_oid (fst (placeWalletOrder req s)))"
  by (simp add: placeWalletOrder_def Let_def case_prod_beta split: option.splits)

lemma ids_issued_placeWalletOrder:
  assumes "ids_issued s"
  shows "ids_issued (fst (placeWalletOrder req s))"
proof (cases "fst (placeWalletOrder req s) = s")
  case True
  with assms show ?thesis by simp
next
  case False
  let ?t = "\<lparr>transaction_id = next_oid s, t_type = ''wallet'', amount = wr_finalAmount req,
             t_description = Order_payment_using_wallet,
             t_status = ''completed'', t_date = None\<rparr>"
  from False placeWalletOrder_wallets [of req s]
  obtain w0 where w: "find_wallet (the (wr_userId req)) (wallets s) = Some w0"
    and ws: "wallets (fst (placeWalletOrder req s)) =
             save_wallet (w0\<lparr>balance := balance w0 - wr_finalAmount req,
                            transactions := transactions w0 @ [?t]\<rparr>) (wallets s)"
    and n: "next_oid s < next_oid (fst (placeWalletOrder req s))"
    by blast
  have "set (transaction_ids (fst (placeWalletOrder req s)))
        \<subseteq> insert (next_oid s) (set (transaction_ids s))"
    unfolding transaction_ids_def ws
    using transaction_ids_debit [OF w, where b = "balance w0 - wr_finalAmount req" and t = ?t]
    by simp
  with assms show ?thesis using n by (rule ids_issued_step)
qed






section \<open>Claims\<close>

text \<open>
  Claim C1, as the specification states it: every persisted order has
  \<open>discountAmount \<le> totalAmount\<close> and
  \<open>finalAmount = max (totalAmount - discountAmount) 0\<close>. Both entry points store
  \<open>finalAmount || (totalAmount - discountAmount)\<close>, so a non-zero finalAmount of the
  request body is stored as it is. A request with totalAmount 300, no coupon and
  finalAmount 500 (400 through the wallet, with balance 500) is persisted with
  finalAmount 500 (400): not \<open>max (300 - 0) 0\<close>, and above totalAmount.
\<close>

theorem persisted_finalAmount_counterexample:
  "map totalAmount (orders ex_overridden) = [300]
   \<and> map discountAmount (orders ex_overridden) = [0]
   \<and> map finalAmount (orders ex_overridden) = [500]
   \<and> finalAmount (last (orders ex_overridden)) \<noteq>
       max (totalAmount (last (orders ex_overridden))
            - discountAmount (last (orders ex_overridden))) 0
   \<and> totalAmount (last (orders ex_overridden)) < finalAmount (last (orders ex_overridden))
   \<and> map totalAmount (orders ex_overridden_wallet) = [300]
   \<and> map discountAmount (orders ex_overridden_wallet) = [0]
   \<and> map finalAmount (orders ex_overridden_wallet) = [400]
   \<and> finalAmount (last (orders ex_overridden_wallet)) \<noteq>
       max (totalAmount (last (orders ex_overridden_wallet))
            - discountAmount (last (orders ex_overridden_wallet))) 0"
  by (simp add: ex_overridden_def ex_overridden_wallet_def placeOrder_def placeWalletOrder_def
      ex_order_request_def ex_wallet_request_def ex_line_item_def ex_state_def ex_products_def
      first_unavailable_def stock_query_def to_order_item_def final_or_def
      find_wallet_def Let_def)

text \<open>
  Claim C1, amended. An order persisted by placeOrder or by placeWalletOrder (answer
  201) is appended to the orders with the totalAmount of the request. Its discountAmount
  is 0 when no coupon is applied and at most totalAmount when one is, hence at most
  totalAmount whenever totalAmount is not negative. A non-zero finalAmount of the request
  is stored as it is. When the request carries no finalAmount, or the value 0, the stored
  finalAmount is totalAmount - discountAmount; if moreover totalAmount and the offer
  values of the coupons are not negative, this equals
  \<open>max (totalAmount - discountAmount) 0\<close> and lies between 0 and totalAmount.
\<close>

theorem persisted_order_amounts:
  "(status_code (snd (placeOrder req s)) = 201 \<longrightarrow>
      (\<exists>ord. orders (fst (placeOrder req s)) = orders s @ [ord]
         \<and> totalAmount ord = r_totalAmount req
         \<and> (o_coupon ord = None \<longrightarrow> discountAmount ord = 0)
         \<and> (o_coupon ord \<noteq> None \<longrightarrow> discountAmount ord \<le> totalAmount ord)
         \<and> (0 \<le> r_totalAmount req \<longrightarrow> discountAmount ord \<le> totalAmount ord)
         \<and> (r_finalAmount req \<noteq> None \<and> r_finalAmount req \<noteq> Some 0 \<longrightarrow>
               Some (finalAmount ord) = r_finalAmount req)
         \<and> (r_finalAmount req = None \<or> r_finalAmount req = Some 0 \<longrightarrow>
               finalAmount ord = totalAmount ord - discountAmount ord)
         \<and> ((r_finalAmount req = None \<or> r_finalAmount req = Some 0)
              \<and> 0 \<le> r_totalAmount req \<and> (\<forall>k \<in> set (coupons s). 0 \<le> offerPrice k) \<longrightarrow>
               finalAmount ord = max (totalAmount ord - discountAmount ord) 0
             \<and> 0 \<le> finalAmount ord \<and> finalAmount ord \<le> totalAmount ord)))
   \<and> (status_code (snd (placeWalletOrder wreq s)) = 201 \<longrightarrow>
      (\<exists>ord. orders (fst (placeWalletOrder wreq s)) = orders s @ [ord]
         \<and> totalAmount ord = wr_totalAmount wreq
         \<and> (o_coupon ord = None \<longrightarrow> discountAmount ord = 0)
         \<and> (o_coupon ord \<noteq> None \<longrightarrow> discountAmount ord \<le> totalAmount ord)
         \<and> (0 \<le> wr_totalAmount wreq \<longrightarrow> discountAmount ord \<le> totalAmount ord)
         \<and> (wr_finalAmount wreq \<noteq> 0 \<longrightarrow> finalAmount ord = wr_finalAmount wreq)
         \<and> (wr_finalAmount wreq = 0 \<longrightarrow>
               finalAmount ord = totalAmount ord - discountAmount ord)
         \<and> (wr_finalAmount wreq = 0
              \<and> 0 \<le> wr_totalAmount wreq \<and> (\<forall>k \<in> set (coupons s). 0 \<le> offerPrice k) \<longrightarrow>
               finalAmount ord = max (totalAmount ord - discountAmount ord) 0
             \<and> 0 \<le> finalAmount ord \<and> finalAmount ord \<le> totalAmount ord)))"
proof (intro conjI impI)
  assume "status_code (snd (placeOrder req s)) = 201"
  then obtain ord where o: "orders (fst (placeOrder req s)) = orders s @ [ord]"
      "totalAmount ord = r_totalAmount req"
      "discountAmount ord =
         snd (apply_coupon (coupons s) (now s) (r_couponCode req) (r_totalAmount req))"
      "o_coupon ord =
         coupon_snapshot
           (fst (apply_coupon (coupons s) (now s) (r_couponCode req) (r_totalAmount req)))
           (snd (apply_coupon (coupons s) (now s) (r_couponCode req) (r_totalAmount req)))"
      "finalAmount ord = final_or (r_finalAmount req) (totalAmount ord - discountAmount ord)"
    using placeOrder_created by blast
  let ?a = "apply_coupon (coupons s) (now s) (r_couponCode req) (r_totalAmount req)"
  have z: "o_coupon ord = None \<longrightarrow> discountAmount ord = 0"
    by (simp add: o apply_coupon_None_zero)
  have le1: "o_coupon ord \<noteq> None \<longrightarrow> discountAmount ord \<le> totalAmount ord"
    by (simp add: o apply_coupon_le)
  have le2: "0 \<le> r_totalAmount req \<longrightarrow> discountAmount ord \<le> totalAmount ord"
    by (simp add: o(2,3) apply_coupon_le)
  have nn: "0 \<le> r_totalAmount req \<and> (\<forall>k \<in> set (coupons s). 0 \<le> offerPrice k) \<longrightarrow>
              0 \<le> discountAmount ord"
    by (simp add: o(3) apply_coupon_nonneg)
  have f1: "r_finalAmount req \<noteq> None \<and> r_finalAmount req \<noteq> Some 0 \<longrightarrow>
              Some (finalAmount ord) = r_finalAmount req"
    by (cases "r_finalAmount req") (simp_all add: o(5))
  have f2: "r_finalAmount req = None \<or> r_finalAmount req = Some 0 \<longrightarrow>
              finalAmount ord = totalAmount ord - discountAmount ord"
    by (auto simp: o(5))
  show "\<exists>ord. orders (fst (placeOrder req s)) = orders s @ [ord]
         \<and> totalAmount ord = r_totalAmount req
         \<and> (o_coupon ord = None \<longrightarrow> discountAmount ord = 0)
         \<and> (o_coupon ord \<noteq> None \<longrightarrow> discountAmount ord \<le> totalAmount ord)
         \<and> (0 \<le> r_totalAmount req \<longrightarrow> discountAmount ord \<le> totalAmount ord)
         \<and> (r_finalAmount req \<noteq> None \<and> r_finalAmount req \<noteq> Some 0 \<longrightarrow>
               Some (finalAmount ord) = r_finalAmount req)
         \<and> (r_finalAmount req = None \<or> r_finalAmount req = Some 0 \<longrightarrow>
               finalAmount ord = totalAmount ord - discountAmount ord)
         \<and> ((r_finalAmount req = None \<or> r_finalAmount req = Some 0)
              \<and> 0 \<le> r_totalAmount req \<and> (\<forall>k \<in> set (coupons s). 0 \<le> offerPrice k) \<longrightarrow>
               finalAmount ord = max (totalAmount ord - discountAmount ord) 0
             \<and> 0 \<le> finalAmount ord \<and> finalAmount ord \<le> totalAmount ord)"
  proof (intro exI [of _ ord] conjI)
    show "(r_finalAmount req = None \<or> r_finalAmount req = Some 0)
              \<and> 0 \<le> r_totalAmount req \<and> (\<forall>k \<in> set (coupons s). 0 \<le> offerPrice k) \<longrightarrow>
               finalAmount ord = max (totalAmount ord - discountAmount ord) 0
             \<and> 0 \<le> finalAmount ord \<and> finalAmount ord \<le> totalAmount ord"
      using le2 nn f2 by (auto simp: max_def)
  qed (use o z le1 le2 f1 f2 in blast)+
next
  assume "status_code (snd (placeWalletOrder wreq s)) = 201"
  then obtain ord where o: "orders (fst (placeWalletOrder wreq s)) = orders s @ [ord]"
      "totalAmount ord = wr_totalAmount wreq"
      "discountAmount ord =
         snd (apply_coupon (coupons s) (now s) (wr_couponCode wreq) (wr_totalAmount wreq))"
      "o_coupon ord =
         coupon_snapshot
           (fst (apply_coupon (coupons s) (now s) (wr_couponCode wreq) (wr_totalAmount wreq)))
           (snd (apply_coupon (coupons s) (now s) (wr_couponCode wreq) (wr_totalAmount wreq)))"
      "finalAmount ord =
         final_or (Some (wr_finalAmount wreq)) (totalAmount ord - discountAmount ord)"
    using placeWalletOrder_created by blast
  have z: "o_coupon ord = None \<longrightarrow> discountAmount ord = 0"
    by (simp add: o apply_coupon_None_zero)
  have le1: "o_coupon ord \<noteq> None \<longrightarrow> discountAmount ord \<le> totalAmount ord"
    by (simp add: o apply_coupon_le)
  have le2: "0 \<le> wr_totalAmount wreq \<longrightarrow> discountAmount ord \<le> totalAmount ord"
    by (simp add: o(2,3) apply_coupon_le)
  have nn: "0 \<le> wr_totalAmount wreq \<and> (\<forall>k \<in> set (coupons s). 0 \<le> offerPrice k) \<longrightarrow>
              0 \<le> discountAmount ord"
    by (simp add: o(3) apply_coupon_nonneg)
  have f1: "wr_finalAmount wreq \<noteq> 0 \<longrightarrow> finalAmount ord = wr_finalAmount wreq"
    by (simp add: o(5))
  have f2: "wr_finalAmount wreq = 0 \<longrightarrow> finalAmount ord = totalAmount ord - discountAmount ord"
    by (simp add: o(5))
  show "\<exists>ord. orders (fst (placeWalletOrder wreq s)) = orders s @ [ord]
         \<and> totalAmount ord = wr_totalAmount wreq
         \<and> (o_coupon ord = None \<longrightarrow> discountAmount ord = 0)
         \<and> (o_coupon ord \<noteq> None \<longrightarrow> discountAmount ord \<le> totalAmount ord)
         \<and> (0 \<le> wr_totalAmount wreq \<longrightarrow> discountAmount ord \<le> totalAmount ord)
         \<and> (wr_finalAmount wreq \<noteq> 0 \<longrightarrow> finalAmount ord = wr_finalAmount wreq)
         \<and> (wr_finalAmount wreq = 0 \<longrightarrow>
               finalAmount ord = totalAmount ord - discountAmount ord)
         \<and> (wr_finalAmount wreq = 0
              \<and> 0 \<le> wr_totalAmount wreq \<and> (\<forall>k \<in> set (coupons s). 0 \<le> offerPrice k) \<longrightarrow>
               finalAmount ord = max (totalAmount ord - discountAmount ord) 0
             \<and> 0 \<le> finalAmount ord \<and> finalAmount ord \<le> totalAmount ord)"
  proof (intro exI [of _ ord] conjI)
    show "wr_finalAmount wreq = 0
              \<and> 0 \<le> wr_totalAmount wreq \<and> (\<forall>k \<in> set (coupons s). 0 \<le> offerPrice k) \<longrightarrow>
               finalAmount ord = max (totalAmount ord - discountAmount ord) 0
             \<and> 0 \<le> finalAmount ord \<and> finalAmount ord \<le> totalAmount ord"
      using le2 nn f2 by (auto simp: max_def)
  qed (use o z le1 le2 f1 f2 in blast)+
qed

theorem persisted_order_amounts_witness:
  "(\<exists>ord. orders (fst (placeOrder (ex_order_request (ex_line_item 2 20 2) (Some ''TEN'') None)
              (ex_state []))) = [ord]
      \<and> totalAmount ord = 300 \<and> discountAmount ord \<le> 300
      \<and> finalAmount ord = max (300 - discountAmount ord) 0
      \<and> 0 \<le> finalAmount ord \<and> finalAmount ord \<le> 300)
   \<and> (\<exists>ord. orders (fst (placeOrder (ex_order_request (ex_line_item 2 20 2) None (Some 500))
              (ex_state []))) = [ord]
      \<and> totalAmount ord = 300 \<and> finalAmount ord = 500)
   \<and> (\<exists>ord. orders (fst (placeWalletOrder (ex_wallet_request 7 (ex_line_item 2 20 2) 0)
              (ex_state []))) = [ord]
      \<and> totalAmount ord = 300 \<and> discountAmount ord \<le> 300
      \<and> finalAmount ord = max (300 - discountAmount ord) 0
      \<and> 0 \<le> finalAmount ord \<and> finalAmount ord \<le> 300)
   \<and> (\<exists>ord. orders (fst (placeWalletOrder (ex_wallet_request 7 (ex_line_item 2 20 2) 400)
              (ex_state []))) = [ord]
      \<and> totalAmount ord = 300 \<and> finalAmount ord = 400)"
proof -
  let ?s = "ex_state []"
  let ?r1 = "ex_order_request (ex_line_item 2 20 2) (Some ''TEN'') None"
  let ?r2 = "ex_order_request (ex_line_item 2 20 2) None (Some 500)"
  let ?w1 = "ex_wallet_request 7 (ex_line_item 2 20 2) 0"
  let ?w2 = "ex_wallet_request 7 (ex_line_item 2 20 2) 400"
  have e: "orders ?s = []" by (simp add: ex_state_def)
  have r: "r_totalAmount ?r1 = 300" "r_finalAmount ?r1 = None"
    "r_totalAmount ?r2 = 300" "r_finalAmount ?r2 = Some 500"
    "wr_totalAmount ?w1 = 300" "wr_finalAmount ?w1 = 0"
    "wr_totalAmount ?w2 = 300" "wr_finalAmount ?w2 = 400"
    by (simp_all add: ex_order_request_def ex_wallet_request_def)
  have c1: "status_code (snd (placeOrder ?r1 ?s)) = 201"
   and c2: "status_code (snd (placeOrder ?r2 ?s)) = 201"
    by (rule ex_placeOrder_created)+
  have c3: "status_code (snd (placeWalletOrder ?w1 ?s)) = 201"
   and c4: "status_code (snd (placeWalletOrder ?w2 ?s)) = 201"
    by (rule ex_placeWalletOrder_created, simp)+
  note t1 = persisted_order_amounts [of ?r1 ?s ?w1]
  note t2 = persisted_order_amounts [of ?r2 ?s ?w2]
  have a: "\<exists>ord. orders (fst (placeOrder ?r1 ?s)) = [ord]
      \<and> totalAmount ord = 300 \<and> discountAmount ord \<le> 300
      \<and> finalAmount ord = max (300 - discountAmount ord) 0
      \<and> 0 \<le> finalAmount ord \<and> finalAmount ord \<le> 300"
    using t1 c1 ex_coupons_nonneg [of "[]"] unfolding r e by (auto simp: max_def)
  have b: "\<exists>ord. orders (fst (placeOrder ?r2 ?s)) = [ord]
      \<and> totalAmount ord = 300 \<and> finalAmount ord = 500"
    using t2 c2 unfolding r e by auto
  have c: "\<exists>ord. orders (fst (placeWalletOrder ?w1 ?s)) = [ord]
      \<and> totalAmount ord = 300 \<and> discountAmount ord \<le> 300
      \<and> finalAmount ord = max (300 - discountAmount ord) 0
      \<and> 0 \<le> finalAmount ord \<and> finalAmount ord \<le> 300"
    using t1 c3 ex_coupons_nonneg [of "[]"] unfolding r e by (auto simp: max_def)
  have d: "\<exists>ord. orders (fst (placeWalletOrder ?w2 ?s)) = [ord]
      \<and> totalAmount ord = 300 \<and> finalAmount ord = 400"
    using t2 c4 unfolding r e by auto
  from a b c d show ?thesis by blast
qed

text \<open>
  Claim C2 fails on the code. The dedicated return endpoint rejects an order that is not
  Delivered, requires reason and description, records returnDetails and refunds a
  Completed payment once, but it has no stock update at all: it never writes the
  products (lemma \<open>returnOrderStatusUpdate_products\<close>), whereas the return branch of
  the generic endpoint restocks every line item. Here a Delivered order of 2 units of
  variant 20 (stock 5), paid through the gateway, is returned: the answer is 200,
  returnDetails are recorded, one refund of 300 is appended, and the stock stays 5.
\<close>

theorem returnOrderStatusUpdate_no_restock:
  "snd ex_returned_dedicated = Response 200 ''Return processed successfully''
   \<and> map orderStatus (orders (fst ex_returned_dedicated)) = [''Returned'']
   \<and> map returnDetails (orders (fst ex_returned_dedicated)) =
       [Some \<lparr>reason = ''damaged'', rd_description = ''arrived broken'', returnDate = 50\<rparr>]
   \<and> transactions_of ex_delivered 7 = []
   \<and> transactions_of (fst ex_returned_dedicated) 7 = [ex_refund]
   \<and> ordered_quantity (o_products (ex_order ''Delivered'' ''RazorpayX'' ''Completed'')) 2 20 = 2
   \<and> stock (products ex_delivered) 2 20 = Some 5
   \<and> stock (products (fst ex_returned_dedicated)) 2 20 = Some 5"
  by (simp add: ex_returned_dedicated_eq ex_delivered_def ex_state_def ex_products_def
      ex_order_def transactions_of_def find_wallet_def ordered_quantity_def stock_def
      has_variant_def)

text \<open>
  Claim C3 fails on the code. From the same state (the Delivered order above) the two
  return paths end in different states: the generic status-update endpoint restocks
  (stock 7) and records no returnDetails, the dedicated endpoint records returnDetails
  and does not restock (stock 5). They agree on the refund, on the order status
  Returned and on the payment status.
\<close>

theorem return_paths_differ:
  "stock (products (fst ex_returned_generic)) 2 20 = Some 7
   \<and> stock (products (fst ex_returned_dedicated)) 2 20 = Some 5
   \<and> map returnDetails (orders (fst ex_returned_generic)) = [None]
   \<and> map returnDetails (orders (fst ex_returned_dedicated)) =
       [Some \<lparr>reason = ''damaged'', rd_description = ''arrived broken'', returnDate = 50\<rparr>]
   \<and> fst ex_returned_generic \<noteq> fst ex_returned_dedicated
   \<and> wallets (fst ex_returned_generic) = wallets (fst ex_returned_dedicated)
   \<and> map orderStatus (orders (fst ex_returned_generic)) =
       map orderStatus (orders (fst ex_returned_dedicated))
   \<and> map paymentStatus (orders (fst ex_returned_generic)) =
       map paymentStatus (orders (fst ex_returned_dedicated))"
  by (simp add: ex_returned_dedicated_eq ex_returned_generic_eq ex_products_def
      ex_order_def stock_def has_variant_def)

text \<open>
  Claim C4 fails on the code. The verification loop runs before any decrement, and when
  it fails the state is returned unchanged (lemmas \<open>placeOrder_stock_check_failed\<close>,
  \<open>placeWalletOrder_stock_check_failed\<close>); but its query does not compare the
  requested quantity with the stock of the requested variant. The conditions
  \<open>'variants._id'\<close> and \<open>'variants.availableQuantity': {$gte: quantity}\<close> are
  separate conditions on the array, so another variant of the product with enough stock
  satisfies the second one. Here product 1 has variant 10 with stock 0 and variant 11
  with stock 10; a line item of 5 units of variant 10 passes the check, the order is
  created (201) by either entry point, and the stock of variant 10 becomes -5.
\<close>

theorem placeOrder_oversells_variant:
  "quantity (ex_line_item 1 10 5) = 5
   \<and> stock (products (ex_state [])) 1 10 = Some 0
   \<and> stock_query (products (ex_state [])) (ex_line_item 1 10 5)
   \<and> snd ex_oversell = Response 201 ''Order placed successfully.''
   \<and> length (orders (fst ex_oversell)) = 1
   \<and> stock (products (fst ex_oversell)) 1 10 = Some (- 5)
   \<and> snd ex_oversell_wallet = Response 201 ''Order placed successfully using wallet.''
   \<and> length (orders (fst ex_oversell_wallet)) = 1
   \<and> stock (products (fst ex_oversell_wallet)) 1 10 = Some (- 5)"
  by (simp add: ex_oversell_def ex_oversell_wallet_def placeOrder_def placeWalletOrder_def
      ex_order_request_def ex_wallet_request_def ex_line_item_def ex_state_def ex_products_def
      first_unavailable_def stock_query_def to_order_item_def final_or_def find_wallet_def
      save_wallet_def decrement_stock_def inc_stock_def has_variant_def stock_def
      clear_cart_def Let_def)

text \<open>
  Claim C5. The Cancelled transition of the status-update endpoint, for an order the
  endpoint finds. When the order is Shipped or Delivered the request is answered 400 and
  the state is returned unchanged. Otherwise the request is answered 200, the order is
  saved as Cancelled, the stock of every variant grows by exactly the quantity the order
  holds of it, and when paymentMethod is RazorpayX (the online gateway) and paymentStatus
  is Completed exactly one refund transaction of finalAmount is appended to the owner's
  wallet and the balance grows by finalAmount; without that condition the wallets are
  untouched.
\<close>

theorem orderStatusUpdate_Cancelled:
  assumes "findById i (orders s) = Some ord"
  shows "(orderStatus ord = ''Shipped'' \<or> orderStatus ord = ''Delivered'' \<longrightarrow>
            orderStatusUpdate i (Some ''Cancelled'') s =
              (s, Response 400
                    (''Cannot cancel the order with current status '' @ orderStatus ord)))
       \<and> (orderStatus ord \<noteq> ''Shipped'' \<and> orderStatus ord \<noteq> ''Delivered'' \<longrightarrow>
            (let r = orderStatusUpdate i (Some ''Cancelled'') s; s' = fst r; u = o_userId ord
             in status_code (snd r) = 200
              \<and> findById i (orders s') = Some (ord\<lparr>orderStatus := ''Cancelled''\<rparr>)
              \<and> (\<forall>p v. stock (products s') p v =
                    map_option (\<lambda>n. n + ordered_quantity (o_products ord) p v)
                      (stock (products s) p v))
              \<and> (paymentMethod ord = ''RazorpayX'' \<and> paymentStatus ord = ''Completed'' \<longrightarrow>
                    transactions_of s' u = transactions_of s u @ [refund_transaction ord s]
                  \<and> amount (refund_transaction ord s) = finalAmount ord
                  \<and> balance_of s' u = balance_of s u + finalAmount ord)
              \<and> (\<not> (paymentMethod ord = ''RazorpayX'' \<and> paymentStatus ord = ''Completed'') \<longrightarrow>
                    wallets s' = wallets s)))"
proof (intro conjI impI)
  assume "orderStatus ord = ''Shipped'' \<or> orderStatus ord = ''Delivered''"
  with assms show "orderStatusUpdate i (Some ''Cancelled'') s =
      (s, Response 400 (''Cannot cancel the order with current status '' @ orderStatus ord))"
    by (rule orderStatusUpdate_cancel_rejected)
next
  assume ok: "orderStatus ord \<noteq> ''Shipped'' \<and> orderStatus ord \<noteq> ''Delivered''"
  have r: "orderStatusUpdate i (Some ''Cancelled'') s =
             (save_order (ord\<lparr>orderStatus := ''Cancelled''\<rparr>) (cancel_effects ord s),
              Response 200 ''Order status updated successfully'')"
    using assms ok by (simp add: orderStatusUpdate_cancel_accepted)
  have f: "findById i (orders (cancel_effects ord s)) = Some ord"
    using assms by (simp add: cancel_effects_orders)
  have i: "o_id (ord\<lparr>orderStatus := ''Cancelled''\<rparr>) = i"
    using assms by (simp add: findById_id)
  show "let r = orderStatusUpdate i (Some ''Cancelled'') s; s' = fst r; u = o_userId ord
        in status_code (snd r) = 200
         \<and> findById i (orders s') = Some (ord\<lparr>orderStatus := ''Cancelled''\<rparr>)
         \<and> (\<forall>p v. stock (products s') p v =
               map_option (\<lambda>n. n + ordered_quantity (o_products ord) p v)
                 (stock (products s) p v))
         \<and> (paymentMethod ord = ''RazorpayX'' \<and> paymentStatus ord = ''Completed'' \<longrightarrow>
               transactions_of s' u = transactions_of s u @ [refund_transaction ord s]
             \<and> amount (refund_transaction ord s) = finalAmount ord
             \<and> balance_of s' u = balance_of s u + finalAmount ord)
         \<and> (\<not> (paymentMethod ord = ''RazorpayX'' \<and> paymentStatus ord = ''Completed'') \<longrightarrow>
               wallets s' = wallets s)"
    unfolding r Let_def fst_conv snd_conv
    using findById_save_order [OF f i]
    by (auto simp: save_order_frame cancel_effects_stock cancel_effects_refund
        cancel_effects_no_refund refund_transaction_def)
qed

theorem orderStatusUpdate_Cancelled_witness:
  "orderStatusUpdate 100 (Some ''Cancelled'')
       (ex_state [ex_order ''Shipped'' ''RazorpayX'' ''Completed'']) =
     (ex_state [ex_order ''Shipped'' ''RazorpayX'' ''Completed''],
      Response 400 ''Cannot cancel the order with current status Shipped'')
   \<and> stock (products (fst (orderStatusUpdate 100 (Some ''Cancelled'')
        (ex_state [ex_order ''Processing'' ''RazorpayX'' ''Completed''])))) 2 20 = Some 7
   \<and> balance_of (fst (orderStatusUpdate 100 (Some ''Cancelled'')
        (ex_state [ex_order ''Processing'' ''RazorpayX'' ''Completed'']))) 7 = 800
   \<and> stock (products (fst (orderStatusUpdate 100 (Some ''Cancelled'')
        (ex_state [ex_order ''Confirmed'' ''COD'' ''Pending''])))) 2 20 = Some 7
   \<and> wallets (fst (orderStatusUpdate 100 (Some ''Cancelled'')
        (ex_state [ex_order ''Confirmed'' ''COD'' ''Pending'']))) =
       [\<lparr>w_userId = 7, balance = 500, transactions = []\<rparr>]"
proof -
  have st: "stock (products (ex_state os)) 2 20 = Some 5" for os
    by (simp add: ex_state_def ex_products_def stock_def has_variant_def)
  have q: "ordered_quantity (o_products (ex_order st pm ps)) 2 20 = 2" for st pm ps
    by (simp add: ex_order_def ordered_quantity_def)
  have b: "balance_of (ex_state os) 7 = 500" for os
    by (simp add: ex_state_def balance_of_def find_wallet_def)
  have w: "wallets (ex_state os) = [\<lparr>w_userId = 7, balance = 500, transactions = []\<rparr>]" for os
    by (simp add: ex_state_def)
  have f: "orderStatus (ex_order st pm ps) = st" "paymentMethod (ex_order st pm ps) = pm"
    "paymentStatus (ex_order st pm ps) = ps" "o_userId (ex_order st pm ps) = 7"
    "finalAmount (ex_order st pm ps) = 300" for st pm ps
    by (simp_all add: ex_order_def)
  show ?thesis
    using orderStatusUpdate_Cancelled [OF ex_findById [of "''Shipped''" "''RazorpayX''" "''Completed''"]]
      orderStatusUpdate_Cancelled [OF ex_findById [of "''Processing''" "''RazorpayX''" "''Completed''"]]
      orderStatusUpdate_Cancelled [OF ex_findById [of "''Confirmed''" "''COD''" "''Pending''"]]
    by (simp add: Let_def st q b w f)
qed



text \<open>
  Claim C7. A wallet checkout for a user who has no wallet, or whose wallet balance is
  below the amount to debit (finalAmount), is answered 400 and returns the state as it
  was: no transaction is appended, the balance is unchanged, no order is created and no
  stock is touched.
\<close>

theorem placeWalletOrder_insufficient_balance:
  assumes "wr_userId req = Some u"
      and "find_wallet u (wallets s) = None
           \<or> (\<exists>w. find_wallet u (wallets s) = Some w \<and> balance w < wr_finalAmount req)"
  shows "fst (placeWalletOrder req s) = s
       \<and> status_code (snd (placeWalletOrder req s)) = 400
       \<and> wallets (fst (placeWalletOrder req s)) = wallets s
       \<and> orders (fst (placeWalletOrder req s)) = orders s
       \<and> balance_of (fst (placeWalletOrder req s)) u = balance_of s u
       \<and> transactions_of (fst (placeWalletOrder req s)) u = transactions_of s u"
proof -
  have "fst (placeWalletOrder req s) = s \<and> status_code (snd (placeWalletOrder req s)) = 400"
    using assms by (auto simp: placeWalletOrder_def)
  then show ?thesis by simp
qed

theorem placeWalletOrder_insufficient_balance_witness:
  "fst (placeWalletOrder (ex_wallet_request 8 (ex_line_item 2 20 2) 300) (ex_state [])) = ex_state []
   \<and> snd (placeWalletOrder (ex_wallet_request 8 (ex_line_item 2 20 2) 300) (ex_state [])) =
       Response 400 ''Insufficient wallet balance.''
   \<and> find_wallet 8 (wallets (ex_state [])) = None
   \<and> fst (placeWalletOrder (ex_wallet_request 7 (ex_line_item 2 20 2) 600) (ex_state [])) = ex_state []
   \<and> status_code (snd (placeWalletOrder (ex_wallet_request 7 (ex_line_item 2 20 2) 600)
        (ex_state []))) = 400
   \<and> balance_of (ex_state []) 7 = 500"
proof -
  have u8: "wr_userId (ex_wallet_request 8 (ex_line_item 2 20 2) 300) = Some 8"
   and u7: "wr_userId (ex_wallet_request 7 (ex_line_item 2 20 2) 600) = Some 7"
    by (simp_all add: ex_wallet_request_def)
  have w8: "find_wallet 8 (wallets (ex_state [])) = None
            \<or> (\<exists>w. find_wallet 8 (wallets (ex_state [])) = Some w
                  \<and> balance w < wr_finalAmount (ex_wallet_request 8 (ex_line_item 2 20 2) 300))"
    by (simp add: find_wallet_def ex_state_def)
  have w7: "find_wallet 7 (wallets (ex_state [])) = None
            \<or> (\<exists>w. find_wallet 7 (wallets (ex_state [])) = Some w
                  \<and> balance w < wr_finalAmount (ex_wallet_request 7 (ex_line_item 2 20 2) 600))"
    by (simp add: find_wallet_def ex_state_def ex_wallet_request_def)
  have m: "snd (placeWalletOrder (ex_wallet_request 8 (ex_line_item 2 20 2) 300) (ex_state [])) =
       Response 400 ''Insufficient wallet balance.''"
    by (simp add: placeWalletOrder_def ex_wallet_request_def find_wallet_def ex_state_def)
  show ?thesis
    using placeWalletOrder_insufficient_balance [OF u8 w8]
      placeWalletOrder_insufficient_balance [OF u7 w7] m
    by (simp add: find_wallet_def balance_of_def ex_state_def)
qed

text \<open>
  Claim C8. Gateway payment verification recomputes the HMAC (the parameter \<open>hmac\<close>,
  HMAC-SHA256 in hex in the program) of razorpay_order_id, "|" and razorpay_payment_id
  under the server-held secret and compares it with the supplied signature by string
  equality: the request is answered 200 exactly when they are equal, and on any mismatch
  it is answered 400 and the state is returned unchanged, so no order is modified and
  every paymentStatus is as before.
\<close>

theorem verifyRazorpayPayment_signature:
  "expectedSignature hmac secret req =
     hmac secret (razorpay_order_id req @ ''|'' @ razorpay_payment_id req)
   \<and> (status_code (snd (verifyRazorpayPayment hmac secret req s)) = 200) =
       (expectedSignature hmac secret req = razorpay_signature req)
   \<and> (expectedSignature hmac secret req \<noteq> razorpay_signature req \<longrightarrow>
        verifyRazorpayPayment hmac secret req s = (s, Response 400 ''Payment verification failed'')
      \<and> orders (fst (verifyRazorpayPayment hmac secret req s)) = orders s
      \<and> map paymentStatus (orders (fst (verifyRazorpayPayment hmac secret req s))) =
          map paymentStatus (orders s))"
  by (simp add: verifyRazorpayPayment_def expectedSignature_def Let_def)

theorem verifyRazorpayPayment_signature_witness:
  "expectedSignature ex_hmac ''key'' (ex_verify_request ''forged'') = ''yekorder_1|pay_1''
   \<and> verifyRazorpayPayment ex_hmac ''key'' (ex_verify_request ''forged'')
        (ex_state [ex_gateway_order]) =
       (ex_state [ex_gateway_order], Response 400 ''Payment verification failed'')
   \<and> map paymentStatus (orders (ex_state [ex_gateway_order])) = [''Pending'']
   \<and> status_code (snd (verifyRazorpayPayment ex_hmac ''key''
        (ex_verify_request ''yekorder_1|pay_1'') (ex_state [ex_gateway_order]))) = 200"
proof -
  have e: "expectedSignature ex_hmac ''key'' (ex_verify_request sg) = ''yekorder_1|pay_1''" for sg
    by (simp add: expectedSignature_def ex_hmac_def ex_verify_request_def)
  have g: "razorpay_signature (ex_verify_request sg) = sg" for sg
    by (simp add: ex_verify_request_def)
  have p: "map paymentStatus (orders (ex_state [ex_gateway_order])) = [''Pending'']"
    by (simp add: ex_state_def ex_gateway_order_def ex_order_def)
  show ?thesis
    using verifyRazorpayPayment_signature [of ex_hmac "''key''" "ex_verify_request ''forged''"
        "ex_state [ex_gateway_order]"]
      verifyRazorpayPayment_signature [of ex_hmac "''key''"
        "ex_verify_request ''yekorder_1|pay_1''" "ex_state [ex_gateway_order]"]
    by (simp add: e g p)
qed

text \<open>
  Claim C9. processRefund is not idempotent: for every order and every state, two calls
  in sequence append two separate refund transactions to the owner's wallet, each of
  amount finalAmount, and each call raises the owner's balance by finalAmount (a user
  without a wallet counts as balance zero and no transactions: the first call then
  creates the wallet). The two transaction ids come from the ObjectId generator and
  differ. In a state whose transaction ids were all issued by the generator
  (\<open>ids_issued\<close>) each of the two ids is fresh: it occurs in no wallet of the state its
  call starts from, and the state after each call satisfies the condition again.
\<close>

theorem processRefund_not_idempotent:
  "(let u = o_userId ord;
        s1 = fst (processRefund ord s);
        s2 = fst (processRefund ord s1);
        t1 = refund_transaction ord s;
        t2 = refund_transaction ord s1
    in transactions_of s1 u = transactions_of s u @ [t1]
     \<and> transactions_of s2 u = transactions_of s u @ [t1, t2]
     \<and> transaction_id t1 = next_oid s \<and> transaction_id t2 = next_oid s + 1
     \<and> transaction_id t1 \<noteq> transaction_id t2
     \<and> t_type t1 = ''refund'' \<and> t_type t2 = ''refund''
     \<and> amount t1 = finalAmount ord \<and> amount t2 = finalAmount ord
     \<and> balance_of s1 u = balance_of s u + finalAmount ord
     \<and> balance_of s2 u = balance_of s1 u + finalAmount ord
     \<and> transaction_id t1 \<in> set (transaction_ids s1)
     \<and> (ids_issued s \<longrightarrow>
           transaction_id t1 \<notin> set (transaction_ids s)
         \<and> transaction_id t2 \<notin> set (transaction_ids s1)
         \<and> ids_issued s1 \<and> ids_issued s2))"
proof -
  let ?u = "o_userId ord"
  let ?s1 = "fst (processRefund ord s)"
  let ?s2 = "fst (processRefund ord ?s1)"
  let ?t1 = "refund_transaction ord s"
  let ?t2 = "refund_transaction ord ?s1"
  have basic: "transactions_of ?s1 ?u = transactions_of s ?u @ [?t1]"
    "transactions_of ?s2 ?u = transactions_of s ?u @ [?t1, ?t2]"
    "transaction_id ?t1 = next_oid s" "transaction_id ?t2 = next_oid s + 1"
    "t_type ?t1 = ''refund''" "t_type ?t2 = ''refund''"
    "amount ?t1 = finalAmount ord" "amount ?t2 = finalAmount ord"
    "balance_of ?s1 ?u = balance_of s ?u + finalAmount ord"
    "balance_of ?s2 ?u = balance_of ?s1 ?u + finalAmount ord"
    by (simp_all add: processRefund_transactions processRefund_balance
        refund_transaction_def processRefund_frame)
  have mem: "transaction_id ?t1 \<in> set (transaction_ids ?s1)"
    using transactions_of_ids [of ?s1 ?u] by (auto simp: basic(1))
  have fresh: "transaction_id ?t1 \<notin> set (transaction_ids s)
         \<and> transaction_id ?t2 \<notin> set (transaction_ids ?s1)
         \<and> ids_issued ?s1 \<and> ids_issued ?s2" if i: "ids_issued s"
  proof -
    have i1: "ids_issued ?s1" using i by (rule ids_issued_processRefund)
    then have i2: "ids_issued ?s2" by (rule ids_issued_processRefund)
    have "next_oid s \<notin> set (transaction_ids s)" using i by (rule ids_issued_fresh)
    moreover have "next_oid ?s1 \<notin> set (transaction_ids ?s1)" using i1 by (rule ids_issued_fresh)
    ultimately show ?thesis using i1 i2 by (simp add: basic processRefund_frame)
  qed
  show ?thesis
    unfolding Let_def using basic mem fresh by simp
qed

theorem processRefund_not_idempotent_witness:
  "ids_issued ex_wallets_used
   \<and> transaction_ids ex_wallets_used = [998, 999]
   \<and> map transaction_id (transactions_of
        (fst (processRefund (ex_order ''Cancelled'' ''RazorpayX'' ''Completed'')
          (fst (processRefund (ex_order ''Cancelled'' ''RazorpayX'' ''Completed'')
             ex_wallets_used)))) 7) = [998, 1000, 1001]
   \<and> 1000 \<notin> set (transaction_ids ex_wallets_used)
   \<and> 1001 \<notin> set (transaction_ids
        (fst (processRefund (ex_order ''Cancelled'' ''RazorpayX'' ''Completed'')
           ex_wallets_used)))
   \<and> balance_of (fst (processRefund (ex_order ''Cancelled'' ''RazorpayX'' ''Completed'')
        ex_wallets_used)) 7 = 800
   \<and> balance_of
        (fst (processRefund (ex_order ''Cancelled'' ''RazorpayX'' ''Completed'')
          (fst (processRefund (ex_order ''Cancelled'' ''RazorpayX'' ''Completed'')
             ex_wallets_used)))) 7 = 1100"
proof -
  let ?o = "ex_order ''Cancelled'' ''RazorpayX'' ''Completed''"
  have i: "ids_issued ex_wallets_used"
    by (simp add: ids_issued_def transaction_ids_def ex_wallets_used_def ex_state_def)
  have ids: "transaction_ids ex_wallets_used = [998, 999]"
    by (simp add: transaction_ids_def ex_wallets_used_def ex_state_def)
  have o: "o_userId ?o = 7" "finalAmount ?o = 300" by (simp_all add: ex_order_def)
  have n: "next_oid ex_wallets_used = 1000" by (simp add: ex_wallets_used_def ex_state_def)
  have t: "map transaction_id (transactions_of ex_wallets_used 7) = [998]"
    by (simp add: transactions_of_def find_wallet_def ex_wallets_used_def ex_state_def)
  have b: "balance_of ex_wallets_used 7 = 500"
    by (simp add: balance_of_def find_wallet_def ex_wallets_used_def ex_state_def)
  show ?thesis
    using processRefund_not_idempotent [of ?o ex_wallets_used] i
    by (simp add: Let_def o n t b ids i refund_transaction_def processRefund_frame)
qed

text \<open>
  Claim C10. The status-update endpoint does not enforce terminal states: an order that
  is already Cancelled, Returned or Payment Failed still accepts a status update to
  Cancelled (answer 200, order saved as Cancelled), which grows the stock of every
  variant again by the quantity the order holds of it and, for a completed RazorpayX
  payment, appends one more refund transaction of finalAmount to the owner's wallet. The
  witness cancels the same order twice: stock 5, 7, 9 and balance 500, 800, 1100.
\<close>

theorem orderStatusUpdate_terminal_not_enforced:
  assumes "findById i (orders s) = Some ord"
      and "orderStatus ord = ''Cancelled'' \<or> orderStatus ord = ''Returned''
           \<or> orderStatus ord = ''Payment Failed''"
  shows "let r = orderStatusUpdate i (Some ''Cancelled'') s; s' = fst r; u = o_userId ord
         in snd r = Response 200 ''Order status updated successfully''
          \<and> findById i (orders s') = Some (ord\<lparr>orderStatus := ''Cancelled''\<rparr>)
          \<and> (\<forall>p v. stock (products s') p v =
                map_option (\<lambda>n. n + ordered_quantity (o_products ord) p v)
                  (stock (products s) p v))
          \<and> (paymentMethod ord = ''RazorpayX'' \<and> paymentStatus ord = ''Completed'' \<longrightarrow>
                transactions_of s' u = transactions_of s u @ [refund_transaction ord s]
              \<and> t_type (refund_transaction ord s) = ''refund''
              \<and> amount (refund_transaction ord s) = finalAmount ord
              \<and> balance_of s' u = balance_of s u + finalAmount ord)"
proof -
  have ok: "orderStatus ord \<noteq> ''Shipped''" "orderStatus ord \<noteq> ''Delivered''"
    using assms(2) by auto
  have r: "orderStatusUpdate i (Some ''Cancelled'') s =
             (save_order (ord\<lparr>orderStatus := ''Cancelled''\<rparr>) (cancel_effects ord s),
              Response 200 ''Order status updated successfully'')"
    using assms(1) ok by (rule orderStatusUpdate_cancel_accepted)
  have f: "findById i (orders (cancel_effects ord s)) = Some ord"
    using assms(1) by (simp add: cancel_effects_orders)
  have i: "o_id (ord\<lparr>orderStatus := ''Cancelled''\<rparr>) = i"
    using assms(1) by (simp add: findById_id)
  show ?thesis
    unfolding r Let_def fst_conv snd_conv
    using findById_save_order [OF f i]
    by (auto simp: save_order_frame cancel_effects_stock cancel_effects_refund
        refund_transaction_def)
qed

theorem orderStatusUpdate_terminal_not_enforced_witness:
  "orderStatus (ex_order ''Cancelled'' ''RazorpayX'' ''Completed'') = ''Cancelled''
   \<and> findById 100 (orders ex_cancelled_once) =
       Some (ex_order ''Cancelled'' ''RazorpayX'' ''Completed'')
   \<and> snd (orderStatusUpdate 100 (Some ''Cancelled'') ex_cancelled_once) =
       Response 200 ''Order status updated successfully''
   \<and> stock (products ex_cancelled_once) 2 20 = Some 7
   \<and> stock (products (fst (orderStatusUpdate 100 (Some ''Cancelled'') ex_cancelled_once)))
        2 20 = Some 9
   \<and> balance_of ex_cancelled_once 7 = 800
   \<and> balance_of (fst (orderStatusUpdate 100 (Some ''Cancelled'') ex_cancelled_once)) 7 = 1100
   \<and> map transaction_id (transactions_of
        (fst (orderStatusUpdate 100 (Some ''Cancelled'') ex_cancelled_once)) 7) = [1000, 1001]"
proof -
  have h1: "findById 100 (orders ex_cancelled_once) =
              Some (ex_order ''Cancelled'' ''RazorpayX'' ''Completed'')"
    by (simp add: ex_cancelled_once_eq findById_def ex_order_def)
  have h2: "orderStatus (ex_order ''Cancelled'' ''RazorpayX'' ''Completed'') = ''Cancelled''
            \<or> orderStatus (ex_order ''Cancelled'' ''RazorpayX'' ''Completed'') = ''Returned''
            \<or> orderStatus (ex_order ''Cancelled'' ''RazorpayX'' ''Completed'') = ''Payment Failed''"
    by (simp add: ex_order_def)
  have st: "stock (products ex_cancelled_once) 2 20 = Some 7"
    by (simp add: ex_cancelled_once_eq stock_def has_variant_def)
  have q: "ordered_quantity (o_products (ex_order st pm ps)) 2 20 = 2" for st pm ps
    by (simp add: ex_order_def ordered_quantity_def)
  have b: "balance_of ex_cancelled_once 7 = 800"
    by (simp add: ex_cancelled_once_eq balance_of_def find_wallet_def)
  have t: "map transaction_id (transactions_of ex_cancelled_once 7) = [1000]"
    by (simp add: ex_cancelled_once_eq transactions_of_def find_wallet_def)
  have n: "next_oid ex_cancelled_once = 1001"
    by (simp add: ex_cancelled_once_eq)
  have f: "orderStatus (ex_order st pm ps) = st" "paymentMethod (ex_order st pm ps) = pm"
    "paymentStatus (ex_order st pm ps) = ps" "o_userId (ex_order st pm ps) = 7"
    "finalAmount (ex_order st pm ps) = 300" for st pm ps
    by (simp_all add: ex_order_def)
  show ?thesis
    using orderStatusUpdate_terminal_not_enforced [OF h1 h2]
    by (simp add: Let_def h1 st q b t n f refund_transaction_def)
qed

end
